theory Spec2Isabelle
  imports Main "HOL-Library.Sublist"
begin

section \<open>Errors\<close>

text \<open>
  Go \<^verbatim>\<open>error\<close> values. \<open>NotFound\<close> and \<open>AlreadyExists\<close> are the two API status errors
  the code distinguishes (they carry the resource and the object name, as the API
  machinery's messages do); \<open>Other\<close> is any other error, known by its text;
  \<open>Wrap p e\<close> is \<^verbatim>\<open>fmt.Errorf(p + "%w", e)\<close>.
\<close>

datatype error = NotFound string string | AlreadyExists string string | Other string
  | Wrap string error

fun IsNotFound :: "error \<Rightarrow> bool" where
  "IsNotFound (NotFound r n) = True"
| "IsNotFound (Wrap p e) = IsNotFound e"
| "IsNotFound e = False"

fun Error :: "error \<Rightarrow> string" where
  "Error (NotFound r n) = r @ '' \"'' @ n @ ''\" not found''"
| "Error (AlreadyExists r n) = r @ '' \"'' @ n @ ''\" already exists''"
| "Error (Other m) = m"
| "Error (Wrap p e) = p @ Error e"

section \<open>Objects\<close>

type_synonym bytes = string

text \<open>\<^verbatim>\<open>networkingv1.NetworkPolicy\<close>: the object metadata the code reads, and the spec,
  whose type belongs to the Kubernetes API and is left open.\<close>

record 'spec NetworkPolicy =
  np_name :: string
  np_namespace :: string
  np_labels :: "string \<rightharpoonup> string"
  np_annotations :: "string \<rightharpoonup> string"
  np_spec :: 'spec

text \<open>\<^verbatim>\<open>certificatesv1.CertificateSigningRequestCondition\<close>: \<open>Type\<close> and \<open>Status\<close> are
  string types in Go.\<close>

record Condition =
  cond_type :: string
  cond_status :: string

abbreviation CertificateApproved :: string where
  "CertificateApproved \<equiv> ''Approved''"

abbreviation ConditionTrue :: string where
  "ConditionTrue \<equiv> ''True''"


text \<open>\<^verbatim>\<open>certificatesv1.CertificateSigningRequest\<close> (cluster-scoped: no namespace).\<close>

record CertificateSigningRequest =
  csr_name :: string
  csr_labels :: "string \<rightharpoonup> string"
  csr_annotations :: "string \<rightharpoonup> string"
  csr_request :: bytes
  csr_usages :: "string list"
  csr_signerName :: string
  csr_conditions :: "Condition list"
  csr_certificate :: bytes

text \<open>\<^verbatim>\<open>corev1.Secret\<close>. \<open>sec_deleting\<close> stands for a set \<^verbatim>\<open>DeletionTimestamp\<close>.\<close>

record Secret =
  sec_name :: string
  sec_namespace :: string
  sec_labels :: "string \<rightharpoonup> string"
  sec_annotations :: "string \<rightharpoonup> string"
  sec_finalizers :: "string list"
  sec_deleting :: bool
  sec_type :: string
  sec_data :: "string \<rightharpoonup> bytes"

abbreviation AnnotationApprovalHash :: string where
  "AnnotationApprovalHash \<equiv> ''networkpolicy.webhook.io/approval-hash''"

abbreviation AnnotationCSRName :: string where
  "AnnotationCSRName \<equiv> ''networkpolicy.webhook.io/csr-name''"

abbreviation LabelNetworkPolicyApproval :: string where
  "LabelNetworkPolicyApproval \<equiv> ''networkpolicy.webhook.io/approval''"

abbreviation SecretTypeNetworkPolicyApproval :: string where
  "SecretTypeNetworkPolicyApproval \<equiv> ''networkpolicy.webhook.io/approval''"

section \<open>The resource store\<close>

text \<open>
  The calls the code makes on \<^verbatim>\<open>client.Client\<close>. A call can fail for a reason of the
  infrastructure (time-out, connectivity, conflict): \<open>faults\<close> gives the text of that
  failure, or \<open>None\<close> when the call goes through.
\<close>

datatype api_call =
    GetCSR string
  | CreateCSR string
  | GetSecret string string
  | ListSecrets
  | CreateSecret string string
  | UpdateSecret string string
  | DeleteSecret string string

text \<open>What \<^verbatim>\<open>rsa.GenerateKey\<close>, \<^verbatim>\<open>x509.CreateCertificateRequest\<close> and
  \<^verbatim>\<open>pem.EncodeToMemory\<close> give for a common name: a failure of the first, a failure of the
  second, or the PEM bytes of the request.\<close>

datatype crypto_outcome = KeyGenError string | CertRequestError string | CertRequestPEM bytes

datatype log_entry = Info string | Err string

text \<open>
  The world the two components act on: the secrets and the signing requests of the
  store, in the order a list call returns them; the failures of the infrastructure; the
  outcome of key generation; the messages of the controller's logger (without their
  key/value pairs; the events of the recorder are left out).
\<close>

record world =
  secrets :: "Secret list"
  csrs :: "CertificateSigningRequest list"
  faults :: "api_call \<Rightarrow> string option"
  crypto :: "string \<Rightarrow> crypto_outcome"
  logs :: "log_entry list"

definition log_info :: "string \<Rightarrow> world \<Rightarrow> world" where
  "log_info m w = w\<lparr>logs := logs w @ [Info m]\<rparr>"

definition log_error :: "string \<Rightarrow> world \<Rightarrow> world" where
  "log_error m w = w\<lparr>logs := logs w @ [Err m]\<rparr>"

definition same_key :: "string \<Rightarrow> string \<Rightarrow> Secret \<Rightarrow> bool" where
  "same_key ns n s = (sec_namespace s = ns \<and> sec_name s = n)"

text \<open>
  Modelled from the spec: the Resource Store (an external collaborator, section 6 of the
  specification): get/create/update/delete/list over objects identified by namespace
  and name, with a protective-guard marker that prevents deletion until it is cleared.
  As in Kubernetes: a get of an absent object is NotFound; a create of a present one is
  AlreadyExists; a delete of an object that still has finalizers only marks it as being
  deleted; an update that leaves an object being deleted without finalizers removes it;
  the deletion mark itself is the store's and no update changes it. There is one
  client at a time, so resource versions never conflict (a conflict is a fault).
\<close>

definition client_get_csr :: "world \<Rightarrow> string \<Rightarrow> error + CertificateSigningRequest" where
  "client_get_csr w n =
     (case faults w (GetCSR n) of
        Some m \<Rightarrow> Inl (Other m)
      | None \<Rightarrow>
          (case find (\<lambda>c. csr_name c = n) (csrs w) of
             None \<Rightarrow> Inl (NotFound ''certificatesigningrequests.certificates.k8s.io'' n)
           | Some c \<Rightarrow> Inr c))"

definition client_create_csr :: "world \<Rightarrow> CertificateSigningRequest \<Rightarrow> error option \<times> world" where
  "client_create_csr w c =
     (case faults w (CreateCSR (csr_name c)) of
        Some m \<Rightarrow> (Some (Other m), w)
      | None \<Rightarrow>
          (case find (\<lambda>d. csr_name d = csr_name c) (csrs w) of
             Some d \<Rightarrow>
               (Some (AlreadyExists ''certificatesigningrequests.certificates.k8s.io'' (csr_name c)), w)
           | None \<Rightarrow> (None, w\<lparr>csrs := csrs w @ [c]\<rparr>)))"

definition client_get_secret :: "world \<Rightarrow> string \<Rightarrow> string \<Rightarrow> error + Secret" where
  "client_get_secret w ns n =
     (case faults w (GetSecret ns n) of
        Some m \<Rightarrow> Inl (Other m)
      | None \<Rightarrow>
          (case find (same_key ns n) (secrets w) of
             None \<Rightarrow> Inl (NotFound ''secrets'' n)
           | Some s \<Rightarrow> Inr s))"

definition client_list_secrets :: "world \<Rightarrow> string \<Rightarrow> error + Secret list" where
  "client_list_secrets w t =
     (case faults w ListSecrets of
        Some m \<Rightarrow> Inl (Other m)
      | None \<Rightarrow> Inr (filter (\<lambda>s. sec_type s = t) (secrets w)))"

definition client_create_secret :: "world \<Rightarrow> Secret \<Rightarrow> error option \<times> world" where
  "client_create_secret w s =
     (case faults w (CreateSecret (sec_namespace s) (sec_name s)) of
        Some m \<Rightarrow> (Some (Other m), w)
      | None \<Rightarrow>
          (case find (same_key (sec_namespace s) (sec_name s)) (secrets w) of
             Some d \<Rightarrow> (Some (AlreadyExists ''secrets'' (sec_name s)), w)
           | None \<Rightarrow> (None, w\<lparr>secrets := secrets w @ [s\<lparr>sec_deleting := False\<rparr>]\<rparr>)))"

definition client_update_secret :: "world \<Rightarrow> Secret \<Rightarrow> error option \<times> world" where
  "client_update_secret w s =
     (case faults w (UpdateSecret (sec_namespace s) (sec_name s)) of
        Some m \<Rightarrow> (Some (Other m), w)
      | None \<Rightarrow>
          (case find (same_key (sec_namespace s) (sec_name s)) (secrets w) of
             None \<Rightarrow> (Some (NotFound ''secrets'' (sec_name s)), w)
           | Some d \<Rightarrow>
               if sec_deleting d \<and> sec_finalizers s = []
               then (None, w\<lparr>secrets :=
                        filter (\<lambda>x. \<not> same_key (sec_namespace s) (sec_name s) x) (secrets w)\<rparr>)
               else (None, w\<lparr>secrets :=
                        map (\<lambda>x. if same_key (sec_namespace s) (sec_name s) x
                                 then s\<lparr>sec_deleting := sec_deleting d\<rparr> else x) (secrets w)\<rparr>)))"

definition client_delete_secret :: "world \<Rightarrow> Secret \<Rightarrow> error option \<times> world" where
  "client_delete_secret w s =
     (case faults w (DeleteSecret (sec_namespace s) (sec_name s)) of
        Some m \<Rightarrow> (Some (Other m), w)
      | None \<Rightarrow>
          (case find (same_key (sec_namespace s) (sec_name s)) (secrets w) of
             None \<Rightarrow> (Some (NotFound ''secrets'' (sec_name s)), w)
           | Some d \<Rightarrow>
               if sec_finalizers d \<noteq> []
               then (None, w\<lparr>secrets :=
                        map (\<lambda>x. if same_key (sec_namespace s) (sec_name s) x
                                 then x\<lparr>sec_deleting := True\<rparr> else x) (secrets w)\<rparr>)
               else (None, w\<lparr>secrets :=
                        filter (\<lambda>x. \<not> same_key (sec_namespace s) (sec_name s) x) (secrets w)\<rparr>)))"

section \<open>SharedReconciler\<close>

text \<open>
  The helpers return \<^verbatim>\<open>(bool, error)\<close> with the boolean true exactly when the error is
  nil, so the pair is modelled by the error alone (\<open>None\<close> for \<^verbatim>\<open>(true, nil)\<close>), and a
  get by \<open>Inr\<close> of the object read or \<open>Inl\<close> of the error.
\<close>

definition GetResource_CSR :: "world \<Rightarrow> string \<Rightarrow> error + CertificateSigningRequest" where
  "GetResource_CSR w n = client_get_csr w n"

definition GetResource_Secret :: "world \<Rightarrow> string \<Rightarrow> string \<Rightarrow> error + Secret" where
  "GetResource_Secret w ns n = client_get_secret w ns n"

definition CreateResource :: "world \<Rightarrow> Secret \<Rightarrow> error option \<times> world" where
  "CreateResource w s = client_create_secret w s"

definition UpdateResource :: "world \<Rightarrow> Secret \<Rightarrow> error option \<times> world" where
  "UpdateResource w s = client_update_secret w s"

definition DeleteResource :: "world \<Rightarrow> Secret \<Rightarrow> error option \<times> world" where
  "DeleteResource w s = client_delete_secret w s"

text \<open>\<^verbatim>\<open>controllerutil.ContainsFinalizer\<close>, \<^verbatim>\<open>AddFinalizer\<close> and \<^verbatim>\<open>RemoveFinalizer\<close> on the
  object in hand, followed by the update that persists the change.\<close>

definition ContainsFinalizer :: "Secret \<Rightarrow> string \<Rightarrow> bool" where
  "ContainsFinalizer s f = (f \<in> set (sec_finalizers s))"

definition AddFinalizer :: "world \<Rightarrow> Secret \<Rightarrow> string \<Rightarrow> error option \<times> Secret \<times> world" where
  "AddFinalizer w s f =
     (if \<not> ContainsFinalizer s f
      then (let s' = s\<lparr>sec_finalizers := sec_finalizers s @ [f]\<rparr>;
                (e, w') = UpdateResource w s'
            in (e, s', w'))
      else (None, s, w))"

definition RemoveFinalizer :: "world \<Rightarrow> Secret \<Rightarrow> string \<Rightarrow> error option \<times> Secret \<times> world" where
  "RemoveFinalizer w s f =
     (if ContainsFinalizer s f
      then (let s' = s\<lparr>sec_finalizers := filter (\<lambda>g. g \<noteq> f) (sec_finalizers s)\<rparr>;
                (e, w') = UpdateResource w s'
            in (e, s', w'))
      else (None, s, w))"

section \<open>The Grant Materializer: Reconcile\<close>

text \<open>\<^verbatim>\<open>ctrl.Result\<close>; the duration is in nanoseconds.\<close>

record Result =
  Requeue :: bool
  RequeueAfter :: int

definition Result0 :: Result where
  "Result0 = \<lparr>Requeue = False, RequeueAfter = 0\<rparr>"

text \<open>The loop over \<^verbatim>\<open>csr.Status.Conditions\<close>.\<close>

fun isApproved :: "Condition list \<Rightarrow> bool" where
  "isApproved [] = False"
| "isApproved (c # cs) = (if cond_type c = CertificateApproved then True else isApproved cs)"

definition secretName :: "string \<Rightarrow> string \<Rightarrow> string" where
  "secretName npNamespace npName = ''np-approval-'' @ npNamespace @ ''-'' @ npName"

definition secretData :: "CertificateSigningRequest \<Rightarrow> string \<Rightarrow> (string \<rightharpoonup> bytes)" where
  "secretData csr approvalHash =
     [''hash'' \<mapsto> approvalHash,
      ''tls-crt'' \<mapsto> csr_certificate csr,
      ''csr-name'' \<mapsto> csr_name csr]"

definition newSecret :: "CertificateSigningRequest \<Rightarrow> string \<Rightarrow> string \<Rightarrow> string \<Rightarrow> Secret" where
  "newSecret csr npName npNamespace approvalHash =
     \<lparr>sec_name = secretName npNamespace npName,
      sec_namespace = npNamespace,
      sec_labels = [''networkpolicy.webhook.io/approval'' \<mapsto> ''true'',
                    ''networkpolicy.webhook.io/name'' \<mapsto> npName],
      sec_annotations = [''networkpolicy.webhook.io/csr-name'' \<mapsto> csr_name csr,
                         ''networkpolicy.webhook.io/approval-hash'' \<mapsto> approvalHash,
                         ''networkpolicy.webhook.io/np-name'' \<mapsto> npName,
                         ''networkpolicy.webhook.io/np-namespace'' \<mapsto> npNamespace],
      sec_finalizers = [],
      sec_deleting = False,
      sec_type = ''networkpolicy.webhook.io/approval'',
      sec_data = secretData csr approvalHash\<rparr>"

text \<open>The second half of \<^verbatim>\<open>Reconcile\<close>, from "Create or update the secret with the
  certificate" to its end.\<close>

definition reconcileSecret ::
  "world \<Rightarrow> CertificateSigningRequest \<Rightarrow> string \<Rightarrow> string \<Rightarrow> string \<Rightarrow> (Result \<times> error option) \<times> world"
where
  "reconcileSecret w csr npName npNamespace approvalHash =
     (case GetResource_Secret w npNamespace (secretName npNamespace npName) of
        Inl err \<Rightarrow>
          if \<not> IsNotFound err
          then ((Result0, Some err), log_error ''Failed to check if secret exists'' w)
          else
            (case CreateResource w (newSecret csr npName npNamespace approvalHash) of
               (Some e, w1) \<Rightarrow> ((Result0, Some e), log_error ''Failed to create secret'' w1)
             | (None, w1) \<Rightarrow>
                 (case AddFinalizer w1 (newSecret csr npName npNamespace approvalHash)
                         ''networkpolicy.webhook.io/approval-protection'' of
                    (Some e, s2, w2) \<Rightarrow>
                      ((Result0, Some e), log_error ''Failed to add finalizer to secret'' w2)
                  | (None, s2, w2) \<Rightarrow>
                      ((Result0, None),
                       log_info ''Created secret for approved NetworkPolicy'' w2)))
      | Inr secret \<Rightarrow>
          (case UpdateResource w (secret\<lparr>sec_data := secretData csr approvalHash\<rparr>) of
             (Some e, w1) \<Rightarrow> ((Result0, Some e), log_error ''Failed to update secret'' w1)
           | (None, w1) \<Rightarrow>
               (case AddFinalizer w1 (secret\<lparr>sec_data := secretData csr approvalHash\<rparr>)
                       ''networkpolicy.webhook.io/approval-protection'' of
                  (Some e, s2, w2) \<Rightarrow>
                    ((Result0, Some e), log_error ''Failed to add finalizer to secret'' w2)
                | (None, s2, w2) \<Rightarrow>
                    ((Result0, None),
                     log_info ''Updated secret for approved NetworkPolicy'' w2))))"

definition Reconcile :: "world \<Rightarrow> string \<Rightarrow> (Result \<times> error option) \<times> world" where
  "Reconcile w0 req =
     (let w = log_info ''Reconciling CSR'' w0 in
      case GetResource_CSR w req of
        Inl err \<Rightarrow>
          if \<not> IsNotFound err
          then ((Result0, Some err), log_error ''Failed to get CSR'' w)
          else ((Result0, None), w)
      | Inr csr \<Rightarrow>
          if csr_labels csr ''networkpolicy.webhook.io/approval'' = None
          then ((Result0, None), w)
          else if \<not> isApproved (csr_conditions csr)
          then ((Result0, None), w)
          else
            (case (csr_annotations csr ''networkpolicy.webhook.io/name'',
                   csr_annotations csr ''networkpolicy.webhook.io/namespace'',
                   csr_annotations csr ''networkpolicy.webhook.io/approval-hash'') of
               (Some npName, Some npNamespace, Some approvalHash) \<Rightarrow>
                 if length (csr_certificate csr) = 0
                 then ((Result0\<lparr>Requeue := True\<rparr>, None),
                       log_info ''Approved CSR has no certificate data yet'' w)
                 else reconcileSecret w csr npName npNamespace approvalHash
             | _ \<Rightarrow> ((Result0, None), log_info ''CSR missing required annotations'' w)))"

section \<open>The Garbage Collector: cleanupOrphanedSecrets\<close>

text \<open>The body of the loop, for one secret of the list; \<^verbatim>\<open>continue\<close> is returning the
  world as it is.\<close>

definition deleteOrphan :: "world \<Rightarrow> Secret \<Rightarrow> world" where
  "deleteOrphan w secret =
     (case DeleteResource w secret of
        (Some e, w') \<Rightarrow> log_error ''Failed to delete orphaned secret'' w'
      | (None, w') \<Rightarrow> w')"

definition cleanupSecret :: "world \<Rightarrow> Secret \<Rightarrow> world" where
  "cleanupSecret w secret =
     (case sec_annotations secret ''networkpolicy.webhook.io/csr-name'' of
        None \<Rightarrow> w
      | Some csrName \<Rightarrow>
          (case GetResource_CSR w csrName of
             Inr csr \<Rightarrow> w
           | Inl err \<Rightarrow>
               if \<not> IsNotFound err
               then log_error ''Failed to check if CSR exists'' w
               else
                 (let w1 = log_info ''Found orphaned secret without CSR, cleaning up'' w in
                  if ContainsFinalizer secret ''networkpolicy-approval-protection''
                  then
                    (case RemoveFinalizer w1 secret ''networkpolicy-approval-protection'' of
                       (Some e, s2, w2) \<Rightarrow>
                         log_error ''Failed to remove finalizer from orphaned secret'' w2
                     | (None, s2, w2) \<Rightarrow> deleteOrphan w2 s2)
                  else deleteOrphan w1 secret)))"

fun cleanupLoop :: "world \<Rightarrow> Secret list \<Rightarrow> world" where
  "cleanupLoop w [] = w"
| "cleanupLoop w (secret # items) = cleanupLoop (cleanupSecret w secret) items"

definition cleanupOrphanedSecrets :: "world \<Rightarrow> error option \<times> world" where
  "cleanupOrphanedSecrets w =
     (case client_list_secrets w ''networkpolicy.webhook.io/approval'' of
        Inl err \<Rightarrow> (Some (Wrap ''failed to list secrets: '' err), w)
      | Inr items \<Rightarrow> (None, cleanupLoop w items))"

section \<open>The Fingerprint Function: generateNetworkPolicyHash\<close>

record 'spec NetworkPolicyData =
  data_name :: string
  data_namespace :: string
  data_spec :: 'spec

text \<open>The two functions of Go's standard library the fingerprint is made of,
  \<^verbatim>\<open>json.Marshal\<close> on \<open>NetworkPolicyData\<close> and \<^verbatim>\<open>sha256.Sum256\<close>, are parameters.\<close>

record 'spec stdlib =
  json_Marshal :: "'spec NetworkPolicyData \<Rightarrow> error + bytes"
  sha256_Sum256 :: "bytes \<Rightarrow> bytes"

text \<open>\<^verbatim>\<open>fmt.Sprintf("%x", hash)\<close>: two lower-case hexadecimal digits for each byte.\<close>

definition hex_digit :: "nat \<Rightarrow> char" where
  "hex_digit n = ''0123456789abcdef'' ! (n mod 16)"

definition hex_byte :: "char \<Rightarrow> string" where
  "hex_byte c = [hex_digit (of_char c div 16), hex_digit (of_char c mod 16)]"

definition hex_string :: "bytes \<Rightarrow> string" where
  "hex_string bs = concat (map hex_byte bs)"

definition generateNetworkPolicyHash ::
  "'spec stdlib \<Rightarrow> 'spec NetworkPolicy \<Rightarrow> error + string"
where
  "generateNetworkPolicyHash L np =
     (case json_Marshal L
             \<lparr>data_name = np_name np, data_namespace = np_namespace np, data_spec = np_spec np\<rparr> of
        Inl err \<Rightarrow> Inl (Wrap ''failed to marshal NetworkPolicy data: '' err)
      | Inr jsonData \<Rightarrow> Inr (hex_string (sha256_Sum256 L jsonData)))"

section \<open>The Admission Gate\<close>

text \<open>A \<^verbatim>\<open>runtime.Object\<close> is a network policy or an object of another type, known by
  the name \<^verbatim>\<open>%T\<close> prints.\<close>

datatype 'spec Object = NetworkPolicyObject "'spec NetworkPolicy" | OtherObject string

definition checkForApprovedCertificate ::
  "world \<Rightarrow> 'spec NetworkPolicy \<Rightarrow> string \<Rightarrow> error + bool"
where
  "checkForApprovedCertificate w np hash =
     (case client_get_secret w (np_namespace np)
             (''np-approval-'' @ np_namespace np @ ''-'' @ np_name np) of
        Inl err \<Rightarrow> if IsNotFound err then Inr False else Inl err
      | Inr secret \<Rightarrow>
          if sec_type secret \<noteq> SecretTypeNetworkPolicyApproval then Inr False
          else
            (case sec_data secret ''hash'' of
               None \<Rightarrow> Inr False
             | Some storedHash \<Rightarrow>
                 if storedHash \<noteq> hash then Inr False
                 else
                   (case sec_data secret ''tls.crt'' of
                      None \<Rightarrow> Inr False
                    | Some cert \<Rightarrow> if length cert = 0 then Inr False else Inr True)))"

definition createApprovalCSR ::
  "world \<Rightarrow> 'spec NetworkPolicy \<Rightarrow> string \<Rightarrow> string \<Rightarrow> error option \<times> world"
where
  "createApprovalCSR w np hash csrName =
     (case crypto w (''np-approval-'' @ np_namespace np @ ''-'' @ np_name np) of
        KeyGenError m \<Rightarrow> (Some (Wrap ''failed to generate private key: '' (Other m)), w)
      | CertRequestError m \<Rightarrow>
          (Some (Wrap ''failed to create certificate request: '' (Other m)), w)
      | CertRequestPEM csrRequest \<Rightarrow>
          (case client_create_csr w
                  \<lparr>csr_name = csrName,
                   csr_labels = [LabelNetworkPolicyApproval \<mapsto> ''true''],
                   csr_annotations =
                     [AnnotationApprovalHash \<mapsto> hash,
                      ''networkpolicy.webhook.io/name'' \<mapsto> np_name np,
                      ''networkpolicy.webhook.io/namespace'' \<mapsto> np_namespace np],
                   csr_request = csrRequest,
                   csr_usages = [''digital signature'', ''key encipherment'', ''client auth''],
                   csr_signerName = ''kubernetes.io/kube-apiserver-client'',
                   csr_conditions = [],
                   csr_certificate = []\<rparr> of
             (Some err, w') \<Rightarrow> (Some (Wrap ''failed to create CSR: '' err), w')
           | (None, w') \<Rightarrow> (None, w')))"

definition notApprovedMessage :: "string \<Rightarrow> string" where
  "notApprovedMessage csrName =
     ''NetworkPolicy has not been approved yet. CSR created: '' @ csrName @
     ''. Please ask an administrator to approve the CSR''"

text \<open>The admission result \<^verbatim>\<open>(admission.Warnings, error)\<close>: the warnings are always nil,
  so the result is the error; \<open>None\<close> allows and \<open>Some e\<close> denies with the message
  \<open>Error e\<close>.\<close>

definition validateNetworkPolicyApproval ::
  "'spec stdlib \<Rightarrow> world \<Rightarrow> 'spec NetworkPolicy \<Rightarrow> error option \<times> world"
where
  "validateNetworkPolicyApproval L w np =
     (case generateNetworkPolicyHash L np of
        Inl err \<Rightarrow> (Some (Wrap ''failed to generate NetworkPolicy hash: '' err), w)
      | Inr hash \<Rightarrow>
          (case checkForApprovedCertificate w np hash of
             Inl err \<Rightarrow> (Some (Wrap ''failed to check for approved certificate: '' err), w)
           | Inr approved \<Rightarrow>
               if approved then (None, w)
               else
                 (let csrName = ''np-approval-'' @ np_namespace np @ ''-'' @ np_name np in
                  case client_get_csr w csrName of
                    Inr existingCSR \<Rightarrow> (Some (Other (notApprovedMessage csrName)), w)
                  | Inl err \<Rightarrow>
                      if \<not> IsNotFound err
                      then (Some (Wrap ''failed to check existing CSR: '' err), w)
                      else
                        (case createApprovalCSR w np hash csrName of
                           (Some e, w') \<Rightarrow> (Some (Wrap ''failed to create approval CSR: '' e), w')
                         | (None, w') \<Rightarrow> (Some (Other (notApprovedMessage csrName)), w')))))"

definition ValidateCreate :: "'spec stdlib \<Rightarrow> world \<Rightarrow> 'spec Object \<Rightarrow> error option \<times> world" where
  "ValidateCreate L w obj =
     (case obj of
        NetworkPolicyObject networkpolicy \<Rightarrow> validateNetworkPolicyApproval L w networkpolicy
      | OtherObject t \<Rightarrow> (Some (Other (''expected a NetworkPolicy object but got '' @ t)), w))"

definition ValidateUpdate ::
  "'spec stdlib \<Rightarrow> world \<Rightarrow> 'spec Object \<Rightarrow> 'spec Object \<Rightarrow> error option \<times> world"
where
  "ValidateUpdate L w oldObj newObj =
     (case newObj of
        NetworkPolicyObject networkpolicy \<Rightarrow> validateNetworkPolicyApproval L w networkpolicy
      | OtherObject t \<Rightarrow>
          (Some (Other (''expected a NetworkPolicy object for the newObj but got '' @ t)), w))"

definition ValidateDelete :: "'spec stdlib \<Rightarrow> world \<Rightarrow> 'spec Object \<Rightarrow> error option \<times> world" where
  "ValidateDelete L w obj =
     (case obj of
        NetworkPolicyObject networkpolicy \<Rightarrow> (None, w)
      | OtherObject t \<Rightarrow> (Some (Other (''expected a NetworkPolicy object but got '' @ t)), w))"

section \<open>Well-formed stores\<close>

text \<open>The store holds at most one secret for a namespace and a name.\<close>

definition distinct_keys :: "world \<Rightarrow> bool" where
  "distinct_keys w = distinct (map (\<lambda>s. (sec_namespace s, sec_name s)) (secrets w))"

text \<open>A secret that is marked as being deleted still has a finalizer: the store removes
  an object being deleted as soon as its last finalizer is gone.\<close>

definition deleting_guarded :: "world \<Rightarrow> bool" where
  "deleting_guarded w = list_all (\<lambda>s. sec_deleting s \<longrightarrow> sec_finalizers s \<noteq> []) (secrets w)"

section \<open>Examples\<close>

text \<open>An approval request as the Admission Gate creates it for the policy \<open>p\<close> of the
  namespace \<open>ns\<close>, carrying one condition of the approved type with the given status and
  the given certificate; and a world that holds the given requests, no secret, and an
  infrastructure that does not fail.\<close>

definition example_request :: "string \<Rightarrow> bytes \<Rightarrow> CertificateSigningRequest" where
  "example_request status cert =
     \<lparr>csr_name = ''np-approval-ns-p'',
      csr_labels = [''networkpolicy.webhook.io/approval'' \<mapsto> ''true''],
      csr_annotations = [''networkpolicy.webhook.io/approval-hash'' \<mapsto> ''abcd'',
                         ''networkpolicy.webhook.io/name'' \<mapsto> ''p'',
                         ''networkpolicy.webhook.io/namespace'' \<mapsto> ''ns''],
      csr_request = ''pem'',
      csr_usages = [''digital signature'', ''key encipherment'', ''client auth''],
      csr_signerName = ''kubernetes.io/kube-apiserver-client'',
      csr_conditions = [\<lparr>cond_type = ''Approved'', cond_status = status\<rparr>],
      csr_certificate = cert\<rparr>"

definition example_world :: "CertificateSigningRequest list \<Rightarrow> world" where
  "example_world cs =
     \<lparr>secrets = [], csrs = cs, faults = (\<lambda>c. None), crypto = (\<lambda>n. CertRequestPEM ''pem''),
      logs = []\<rparr>"

text \<open>A standard library for the examples (the serialisation joins the three fields, the
  digest is the identity), a policy, and a world in which the creation of the policy's
  approval request fails.\<close>

definition example_stdlib :: "string stdlib" where
  "example_stdlib =
     \<lparr>json_Marshal = (\<lambda>d. Inr (data_namespace d @ ''/'' @ data_name d @ '':'' @ data_spec d)),
      sha256_Sum256 = (\<lambda>b. b)\<rparr>"

definition example_policy :: "string NetworkPolicy" where
  "example_policy =
     \<lparr>np_name = ''p'', np_namespace = ''ns'', np_labels = Map.empty,
      np_annotations = Map.empty, np_spec = ''s''\<rparr>"

definition failing_create_world :: world where
  "failing_create_world =
     (example_world [])
       \<lparr>faults := (\<lambda>c. if c = CreateCSR ''np-approval-ns-p'' then Some ''boom'' else None)\<rparr>"

text \<open>Two secrets of the approval type: one without the annotation that names its
  request, and one that names a request which does not exist and carries the finalizer
  the sweep looks for.\<close>

definition unannotated_secret :: Secret where
  "unannotated_secret =
     \<lparr>sec_name = ''np-approval-ns-q'', sec_namespace = ''ns'', sec_labels = Map.empty,
      sec_annotations = Map.empty, sec_finalizers = [''networkpolicy-approval-protection''],
      sec_deleting = False, sec_type = ''networkpolicy.webhook.io/approval'',
      sec_data = Map.empty\<rparr>"

definition orphaned_secret :: Secret where
  "orphaned_secret =
     \<lparr>sec_name = ''np-approval-ns-orphaned'', sec_namespace = ''ns'', sec_labels = Map.empty,
      sec_annotations = [''networkpolicy.webhook.io/csr-name'' \<mapsto> ''non-existent-csr''],
      sec_finalizers = [''networkpolicy-approval-protection''],
      sec_deleting = False, sec_type = ''networkpolicy.webhook.io/approval'',
      sec_data = Map.empty\<rparr>"

text \<open>
  The scenario of a grant. The external authority approves the request of the given
  name: it adds a condition of the approved type with the status True and the signed
  certificate. \<open>granted_world\<close> is the world after the Admission Gate has denied the
  creation of a policy in the empty store, which creates the approval request, and the
  authority has approved that request; \<open>granted_request\<close> is that request and
  \<open>granted_token\<close> the secret the Grant Materializer makes of it. An external actor
  withdraws a request by deleting it.
\<close>

definition approve :: "string \<Rightarrow> bytes \<Rightarrow> world \<Rightarrow> world" where
  "approve n cert w =
     w\<lparr>csrs := map (\<lambda>c. if csr_name c = n
                          then c\<lparr>csr_conditions :=
                                   csr_conditions c @
                                     [\<lparr>cond_type = CertificateApproved, cond_status = ConditionTrue\<rparr>],
                                 csr_certificate := cert\<rparr>
                          else c) (csrs w)\<rparr>"

definition withdraw :: "string \<Rightarrow> world \<Rightarrow> world" where
  "withdraw n w = w\<lparr>csrs := filter (\<lambda>c. csr_name c \<noteq> n) (csrs w)\<rparr>"

definition granted_world :: "'spec stdlib \<Rightarrow> 'spec NetworkPolicy \<Rightarrow> bytes \<Rightarrow> world" where
  "granted_world L np cert =
     approve (''np-approval-'' @ np_namespace np @ ''-'' @ np_name np) cert
       (snd (ValidateCreate L (example_world []) (NetworkPolicyObject np)))"

definition granted_request :: "'spec NetworkPolicy \<Rightarrow> string \<Rightarrow> bytes \<Rightarrow> CertificateSigningRequest" where
  "granted_request np h cert =
     \<lparr>csr_name = ''np-approval-'' @ np_namespace np @ ''-'' @ np_name np,
      csr_labels = [LabelNetworkPolicyApproval \<mapsto> ''true''],
      csr_annotations =
        [AnnotationApprovalHash \<mapsto> h,
         ''networkpolicy.webhook.io/name'' \<mapsto> np_name np,
         ''networkpolicy.webhook.io/namespace'' \<mapsto> np_namespace np],
      csr_request = ''pem'',
      csr_usages = [''digital signature'', ''key encipherment'', ''client auth''],
      csr_signerName = ''kubernetes.io/kube-apiserver-client'',
      csr_conditions = [\<lparr>cond_type = CertificateApproved, cond_status = ConditionTrue\<rparr>],
      csr_certificate = cert\<rparr>"

definition granted_token :: "'spec NetworkPolicy \<Rightarrow> string \<Rightarrow> bytes \<Rightarrow> Secret" where
  "granted_token np h cert =
     (newSecret (granted_request np h cert) (np_name np) (np_namespace np) h)
       \<lparr>sec_finalizers := [''networkpolicy.webhook.io/approval-protection'']\<rparr>"

section \<open>Basic facts\<close>

lemma log_info_sel [simp]:
  "secrets (log_info m w) = secrets w" "csrs (log_info m w) = csrs w"
  "faults (log_info m w) = faults w" "crypto (log_info m w) = crypto w"
  "logs (log_info m w) = logs w @ [Info m]"
  by (simp_all add: log_info_def)

lemma log_error_sel [simp]:
  "secrets (log_error m w) = secrets w" "csrs (log_error m w) = csrs w"
  "faults (log_error m w) = faults w" "crypto (log_error m w) = crypto w"
  "logs (log_error m w) = logs w @ [Err m]"
  by (simp_all add: log_error_def)

lemma GetResource_CSR_log_info [simp]:
  "GetResource_CSR (log_info m w) n = GetResource_CSR w n"
  by (simp add: GetResource_CSR_def client_get_csr_def split: option.splits)


lemmas materializer_defs =
  Reconcile_def reconcileSecret_def GetResource_CSR_def client_get_csr_def
  GetResource_Secret_def client_get_secret_def CreateResource_def client_create_secret_def
  AddFinalizer_def ContainsFinalizer_def UpdateResource_def client_update_secret_def
  newSecret_def secretName_def secretData_def same_key_def Result0_def Let_def

lemmas example_defs = example_world_def example_request_def example_stdlib_def
  example_policy_def failing_create_world_def

section \<open>The Grant Materializer: what counts as granted\<close>




section \<open>The Grant Materializer: a granted request without its certificate\<close>

text \<open>
  C5, as the claim states it, fails: for a granted request without certificate bytes the
  result asks for a requeue, but its delay \<open>RequeueAfter\<close> is zero: no fixed delay is set.
\<close>

theorem Reconcile_not_ready_no_fixed_delay:
  "isApproved (csr_conditions (example_request ConditionTrue [])) \<and>
   csr_certificate (example_request ConditionTrue []) = [] \<and>
   \<not> 0 < RequeueAfter (fst (fst (Reconcile (example_world [example_request ConditionTrue []])
            ''np-approval-ns-p'')))"
  by (simp add: materializer_defs example_defs)

text \<open>
  C5, amended: for every request that carries the approval label, a condition of the
  approved type and the three cross-reference annotations, but no certificate bytes,
  Reconcile returns without error a result that asks for a requeue (\<open>Requeue\<close> is true and
  no delay is set, where a failure returns the empty result with the error), logs that
  the certificate is not there yet, and leaves the secrets and the requests of the
  store as they are.
\<close>

theorem Reconcile_not_ready_requeues:
  assumes "GetResource_CSR w req = Inr csr"
    and "csr_labels csr ''networkpolicy.webhook.io/approval'' \<noteq> None"
    and "isApproved (csr_conditions csr)"
    and "csr_annotations csr ''networkpolicy.webhook.io/name'' \<noteq> None"
    and "csr_annotations csr ''networkpolicy.webhook.io/namespace'' \<noteq> None"
    and "csr_annotations csr ''networkpolicy.webhook.io/approval-hash'' \<noteq> None"
    and "csr_certificate csr = []"
  shows "fst (Reconcile w req) = (\<lparr>Requeue = True, RequeueAfter = 0\<rparr>, None) \<and>
         secrets (snd (Reconcile w req)) = secrets w \<and>
         csrs (snd (Reconcile w req)) = csrs w \<and>
         logs (snd (Reconcile w req)) =
           logs w @ [Info ''Reconciling CSR'', Info ''Approved CSR has no certificate data yet'']"
  using assms by (auto simp add: Reconcile_def Result0_def Let_def)

theorem Reconcile_not_ready_requeues_witness:
  "GetResource_CSR (example_world [example_request ConditionTrue []]) ''np-approval-ns-p'' =
     Inr (example_request ConditionTrue []) \<and>
   fst (Reconcile (example_world [example_request ConditionTrue []]) ''np-approval-ns-p'') =
     (\<lparr>Requeue = True, RequeueAfter = 0\<rparr>, None) \<and>
   secrets (snd (Reconcile (example_world [example_request ConditionTrue []]) ''np-approval-ns-p'')) = []"
  using Reconcile_not_ready_requeues
    [of "example_world [example_request ConditionTrue []]" "''np-approval-ns-p''"
        "example_request ConditionTrue []"]
  by (simp add: GetResource_CSR_def client_get_csr_def example_defs)

section \<open>The Grant Materializer: a malformed request\<close>



section \<open>The Admission Gate: the paths of validateNetworkPolicyApproval\<close>

lemmas gate_defs = ValidateCreate_def ValidateUpdate_def validateNetworkPolicyApproval_def
  generateNetworkPolicyHash_def checkForApprovedCertificate_def createApprovalCSR_def
  client_get_secret_def client_get_csr_def client_create_csr_def same_key_def Let_def

lemma checkForApprovedCertificate_cong:
  "secrets w = secrets w' \<Longrightarrow> faults w = faults w' \<Longrightarrow>
   checkForApprovedCertificate w np h = checkForApprovedCertificate w' np h"
  by (simp add: checkForApprovedCertificate_def client_get_secret_def cong: option.case_cong)

lemma validate_hash_error:
  "generateNetworkPolicyHash L np = Inl e \<Longrightarrow>
   validateNetworkPolicyApproval L w np =
     (Some (Wrap ''failed to generate NetworkPolicy hash: '' e), w)"
  by (simp add: validateNetworkPolicyApproval_def)

lemma validate_check_error:
  "generateNetworkPolicyHash L np = Inr h \<Longrightarrow> checkForApprovedCertificate w np h = Inl e \<Longrightarrow>
   validateNetworkPolicyApproval L w np =
     (Some (Wrap ''failed to check for approved certificate: '' e), w)"
  by (simp add: validateNetworkPolicyApproval_def)

lemma validate_approved:
  "generateNetworkPolicyHash L np = Inr h \<Longrightarrow> checkForApprovedCertificate w np h = Inr True \<Longrightarrow>
   validateNetworkPolicyApproval L w np = (None, w)"
  by (simp add: validateNetworkPolicyApproval_def)


lemma validate_existing_request:
  "generateNetworkPolicyHash L np = Inr h \<Longrightarrow> checkForApprovedCertificate w np h = Inr False \<Longrightarrow>
   client_get_csr w (''np-approval-'' @ np_namespace np @ ''-'' @ np_name np) = Inr c \<Longrightarrow>
   validateNetworkPolicyApproval L w np =
     (Some (Other (notApprovedMessage (''np-approval-'' @ np_namespace np @ ''-'' @ np_name np))), w)"
  by (simp add: validateNetworkPolicyApproval_def)

lemma validate_lookup_error:
  "generateNetworkPolicyHash L np = Inr h \<Longrightarrow> checkForApprovedCertificate w np h = Inr False \<Longrightarrow>
   client_get_csr w (''np-approval-'' @ np_namespace np @ ''-'' @ np_name np) = Inl err \<Longrightarrow>
   \<not> IsNotFound err \<Longrightarrow>
   validateNetworkPolicyApproval L w np = (Some (Wrap ''failed to check existing CSR: '' err), w)"
  by (simp add: validateNetworkPolicyApproval_def)

lemma validate_created:
  "generateNetworkPolicyHash L np = Inr h \<Longrightarrow> checkForApprovedCertificate w np h = Inr False \<Longrightarrow>
   client_get_csr w (''np-approval-'' @ np_namespace np @ ''-'' @ np_name np) = Inl err \<Longrightarrow>
   IsNotFound err \<Longrightarrow>
   createApprovalCSR w np h (''np-approval-'' @ np_namespace np @ ''-'' @ np_name np) = (None, w') \<Longrightarrow>
   validateNetworkPolicyApproval L w np =
     (Some (Other (notApprovedMessage (''np-approval-'' @ np_namespace np @ ''-'' @ np_name np))), w')"
  by (simp add: validateNetworkPolicyApproval_def)

lemma validate_create_failed:
  "generateNetworkPolicyHash L np = Inr h \<Longrightarrow> checkForApprovedCertificate w np h = Inr False \<Longrightarrow>
   client_get_csr w (''np-approval-'' @ np_namespace np @ ''-'' @ np_name np) = Inl err \<Longrightarrow>
   IsNotFound err \<Longrightarrow>
   createApprovalCSR w np h (''np-approval-'' @ np_namespace np @ ''-'' @ np_name np) = (Some e, w') \<Longrightarrow>
   validateNetworkPolicyApproval L w np = (Some (Wrap ''failed to create approval CSR: '' e), w')"
  by (simp add: validateNetworkPolicyApproval_def)

lemma client_create_csr_frame:
  "client_create_csr w c = (e, w') \<Longrightarrow>
   secrets w' = secrets w \<and> faults w' = faults w \<and> crypto w' = crypto w"
  by (auto simp add: client_create_csr_def split: option.splits)

lemma createApprovalCSR_frame:
  "createApprovalCSR w np h n = (e, w') \<Longrightarrow>
   secrets w' = secrets w \<and> faults w' = faults w \<and> crypto w' = crypto w"
  unfolding createApprovalCSR_def
  by (cases "crypto w (''np-approval-'' @ np_namespace np @ ''-'' @ np_name np)")
     (auto split: prod.splits option.splits dest: client_create_csr_frame)


lemma validate_cases:
  obtains (hash_error) e where "generateNetworkPolicyHash L np = Inl e"
      "validateNetworkPolicyApproval L w np =
         (Some (Wrap ''failed to generate NetworkPolicy hash: '' e), w)"
  | (check_error) h e where "generateNetworkPolicyHash L np = Inr h"
      "checkForApprovedCertificate w np h = Inl e"
      "validateNetworkPolicyApproval L w np =
         (Some (Wrap ''failed to check for approved certificate: '' e), w)"
  | (approved) h where "generateNetworkPolicyHash L np = Inr h"
      "checkForApprovedCertificate w np h = Inr True"
      "validateNetworkPolicyApproval L w np = (None, w)"
  | (existing) h c where "generateNetworkPolicyHash L np = Inr h"
      "checkForApprovedCertificate w np h = Inr False"
      "client_get_csr w (''np-approval-'' @ np_namespace np @ ''-'' @ np_name np) = Inr c"
      "validateNetworkPolicyApproval L w np =
         (Some (Other (notApprovedMessage (''np-approval-'' @ np_namespace np @ ''-'' @ np_name np))), w)"
  | (lookup_error) h err where "generateNetworkPolicyHash L np = Inr h"
      "checkForApprovedCertificate w np h = Inr False"
      "client_get_csr w (''np-approval-'' @ np_namespace np @ ''-'' @ np_name np) = Inl err"
      "\<not> IsNotFound err"
      "validateNetworkPolicyApproval L w np = (Some (Wrap ''failed to check existing CSR: '' err), w)"
  | (created) h err w' where "generateNetworkPolicyHash L np = Inr h"
      "checkForApprovedCertificate w np h = Inr False"
      "client_get_csr w (''np-approval-'' @ np_namespace np @ ''-'' @ np_name np) = Inl err"
      "IsNotFound err"
      "createApprovalCSR w np h (''np-approval-'' @ np_namespace np @ ''-'' @ np_name np) = (None, w')"
      "validateNetworkPolicyApproval L w np =
         (Some (Other (notApprovedMessage (''np-approval-'' @ np_namespace np @ ''-'' @ np_name np))), w')"
  | (create_failed) h err e w' where "generateNetworkPolicyHash L np = Inr h"
      "checkForApprovedCertificate w np h = Inr False"
      "client_get_csr w (''np-approval-'' @ np_namespace np @ ''-'' @ np_name np) = Inl err"
      "IsNotFound err"
      "createApprovalCSR w np h (''np-approval-'' @ np_namespace np @ ''-'' @ np_name np) = (Some e, w')"
      "validateNetworkPolicyApproval L w np = (Some (Wrap ''failed to create approval CSR: '' e), w')"
proof (cases "generateNetworkPolicyHash L np")
  case (Inl e)
  then show ?thesis using hash_error validate_hash_error by blast
next
  case (Inr h)
  note H = this
  show ?thesis
  proof (cases "checkForApprovedCertificate w np h")
    case (Inl e)
    then show ?thesis using H check_error validate_check_error by blast
  next
    case (Inr b)
    note B = this
    show ?thesis
    proof (cases b)
      case True
      with B have "checkForApprovedCertificate w np h = Inr True" by simp
      then show ?thesis using H approved validate_approved by blast
    next
      case False
      with B have F: "checkForApprovedCertificate w np h = Inr False" by simp
      show ?thesis
      proof (cases "client_get_csr w (''np-approval-'' @ np_namespace np @ ''-'' @ np_name np)")
        case (Inr c)
        then show ?thesis using H F existing validate_existing_request by blast
      next
        case (Inl err)
        note G = this
        show ?thesis
        proof (cases "IsNotFound err")
          case False
          then show ?thesis using H F G lookup_error validate_lookup_error by blast
        next
          case True
          note N = this
          obtain r w' where C:
            "createApprovalCSR w np h (''np-approval-'' @ np_namespace np @ ''-'' @ np_name np) = (r, w')"
            by (cases "createApprovalCSR w np h (''np-approval-'' @ np_namespace np @ ''-'' @ np_name np)")
          show ?thesis
          proof (cases r)
            case None
            then show ?thesis using H F G N C created validate_created by blast
          next
            case (Some e)
            then show ?thesis using H F G N C create_failed validate_create_failed by blast
          qed
        qed
      qed
    qed
  qed
qed

lemma validate_frame:
  "validateNetworkPolicyApproval L w np = (r, w') \<Longrightarrow>
   secrets w' = secrets w \<and> faults w' = faults w \<and> crypto w' = crypto w"
  by (cases L np w rule: validate_cases) (auto dest: createApprovalCSR_frame)

lemma validate_allow_iff:
  "fst (validateNetworkPolicyApproval L w np) = None \<longleftrightarrow>
   (\<exists>h. generateNetworkPolicyHash L np = Inr h \<and> checkForApprovedCertificate w np h = Inr True)"
  by (cases L np w rule: validate_cases) auto


lemma find_append_new:
  "find P xs = None \<Longrightarrow> P x \<Longrightarrow> find P (xs @ [x]) = Some x"
  by (induction xs) (auto split: if_splits)

lemma client_create_csr_failed:
  "client_create_csr w c = (Some e, w') \<Longrightarrow> w' = w"
  by (auto simp add: client_create_csr_def split: option.splits)

lemma client_create_csr_ok:
  "client_create_csr w c = (None, w') \<Longrightarrow> w' = w\<lparr>csrs := csrs w @ [c]\<rparr>"
  by (auto simp add: client_create_csr_def split: option.splits)

lemma createApprovalCSR_failed:
  "createApprovalCSR w np h n = (Some e, w') \<Longrightarrow> w' = w"
  unfolding createApprovalCSR_def
  by (cases "crypto w (''np-approval-'' @ np_namespace np @ ''-'' @ np_name np)")
     (auto split: prod.splits option.splits dest: client_create_csr_failed)

lemma createApprovalCSR_ok:
  "createApprovalCSR w np h n = (None, w') \<Longrightarrow>
   csr_name (last (csrs w')) = n \<and> w' = w\<lparr>csrs := csrs w @ [last (csrs w')]\<rparr>"
  unfolding createApprovalCSR_def
  by (cases "crypto w (''np-approval-'' @ np_namespace np @ ''-'' @ np_name np)")
     (auto split: prod.splits option.splits dest!: client_create_csr_ok)

lemma client_get_csr_created:
  "client_get_csr w n = Inl err \<Longrightarrow> IsNotFound err \<Longrightarrow> csr_name c = n \<Longrightarrow>
   client_get_csr (w\<lparr>csrs := csrs w @ [c]\<rparr>) n = Inr c"
  by (auto simp add: client_get_csr_def find_append_new split: option.splits)

lemma validate_repeat:
  "fst (validateNetworkPolicyApproval L (snd (validateNetworkPolicyApproval L w np)) np) =
   fst (validateNetworkPolicyApproval L w np)"
proof (cases L np w rule: validate_cases)
  case (created h err w')
  define c where "c = last (csrs w')"
  from createApprovalCSR_ok [OF created(5)] have
    c: "csr_name c = ''np-approval-'' @ np_namespace np @ ''-'' @ np_name np"
       "w' = w\<lparr>csrs := csrs w @ [c]\<rparr>"
    unfolding c_def by blast+
  have "checkForApprovedCertificate w' np h = Inr False"
    using created(2) c(2) checkForApprovedCertificate_cong [of w' w np h] by simp
  moreover have "client_get_csr w' (''np-approval-'' @ np_namespace np @ ''-'' @ np_name np) = Inr c"
    using client_get_csr_created [OF created(3,4) c(1)] c(2) by simp
  ultimately have "validateNetworkPolicyApproval L w' np =
     (Some (Other (notApprovedMessage (''np-approval-'' @ np_namespace np @ ''-'' @ np_name np))), w')"
    using validate_existing_request [OF created(1)] by blast
  then show ?thesis using created(6) by simp
next
  case (create_failed h err e w')
  then show ?thesis using createApprovalCSR_failed by fastforce
qed simp_all

lemma notApprovedMessage_names: "sublist n (notApprovedMessage n)"
  unfolding notApprovedMessage_def by (rule sublist_appendI)

section \<open>The Admission Gate: the denial message\<close>

text \<open>
  C4, as the claim states it, fails: when the creation of the approval request fails,
  the admission is denied with the text of that failure, and the text does not name the
  request.
\<close>

theorem creation_failure_does_not_name_request:
  "map_option Error
     (fst (ValidateCreate example_stdlib failing_create_world (NetworkPolicyObject example_policy))) =
     Some ''failed to create approval CSR: failed to create CSR: boom'' \<and>
   \<not> sublist ''np-approval-ns-p'' ''failed to create approval CSR: failed to create CSR: boom''"
  by (simp add: gate_defs example_defs sublist_Cons_right)

text \<open>
  C4, amended: when the fingerprint is computed and the token does not approve it, the
  admission is denied, and the message depends on the approval request: if the request
  exists already or is created, the message is the one that names the request and asks
  for its approval; if the lookup of the request fails, the message is
  "failed to check existing CSR: " followed by the failure; if the creation of the
  request fails, the message is "failed to create approval CSR: " followed by the
  failure (the failure is surfaced; the request need not be named).
\<close>

theorem denial_names_request:
  assumes "generateNetworkPolicyHash L np = Inr h"
    and "checkForApprovedCertificate w np h = Inr False"
    and "n = ''np-approval-'' @ np_namespace np @ ''-'' @ np_name np"
  shows "(\<exists>e. fst (validateNetworkPolicyApproval L w np) = Some e \<and>
           (case client_get_csr w n of
              Inr c \<Rightarrow> Error e = notApprovedMessage n \<and> sublist n (Error e)
            | Inl err \<Rightarrow>
                if \<not> IsNotFound err then Error e = ''failed to check existing CSR: '' @ Error err
                else
                  (case fst (createApprovalCSR w np h n) of
                     None \<Rightarrow> Error e = notApprovedMessage n \<and> sublist n (Error e)
                   | Some ce \<Rightarrow> Error e = ''failed to create approval CSR: '' @ Error ce)))"
proof (cases L np w rule: validate_cases)
  case (existing h' c)
  then show ?thesis using assms by (simp add: notApprovedMessage_names)
next
  case (lookup_error h' err)
  then show ?thesis using assms by simp
next
  case (created h' err w')
  then show ?thesis using assms by (simp add: notApprovedMessage_names)
next
  case (create_failed h' err e w')
  then show ?thesis using assms by simp
qed (use assms in simp_all)

theorem denial_names_request_witness:
  "generateNetworkPolicyHash example_stdlib example_policy = Inr (hex_string ''ns/p:s'') \<and>
   checkForApprovedCertificate failing_create_world example_policy (hex_string ''ns/p:s'') = Inr False \<and>
   map_option Error (fst (validateNetworkPolicyApproval example_stdlib failing_create_world example_policy)) =
     Some ''failed to create approval CSR: failed to create CSR: boom''"
proof -
  have h: "generateNetworkPolicyHash example_stdlib example_policy = Inr (hex_string ''ns/p:s'')"
    by (simp add: generateNetworkPolicyHash_def example_defs)
  have c: "checkForApprovedCertificate failing_create_world example_policy (hex_string ''ns/p:s'') =
      Inr False"
    by (simp add: checkForApprovedCertificate_def client_get_secret_def example_defs)
  have n: "''np-approval-ns-p'' =
      ''np-approval-'' @ np_namespace example_policy @ ''-'' @ np_name example_policy"
    by (simp add: example_defs)
  have g: "client_get_csr failing_create_world ''np-approval-ns-p'' =
      Inl (NotFound ''certificatesigningrequests.certificates.k8s.io'' ''np-approval-ns-p'')"
    by (simp add: client_get_csr_def example_defs)
  have cr: "fst (createApprovalCSR failing_create_world example_policy (hex_string ''ns/p:s'')
      ''np-approval-ns-p'') = Some (Wrap ''failed to create CSR: '' (Other ''boom''))"
    by (simp add: createApprovalCSR_def client_create_csr_def example_defs)
  from denial_names_request [OF h c n] obtain e where
    e: "fst (validateNetworkPolicyApproval example_stdlib failing_create_world example_policy) = Some e"
       "Error e = ''failed to create approval CSR: '' @
          Error (Wrap ''failed to create CSR: '' (Other ''boom''))"
    unfolding g cr by auto
  show ?thesis using h c e by simp
qed

section \<open>The Admission Gate: repeated admission\<close>

text \<open>
  C9: for every object, two worlds with the same secrets and the same behaviour of the
  store give the same allow/deny decision of ValidateCreate and of ValidateUpdate
  (whatever the signing requests and the key generation are); and a second call, made
  in the world the first call has left, returns the very result of the first.
\<close>

theorem admission_idempotent:
  "(secrets w = secrets w' \<and> faults w = faults w' \<longrightarrow>
      (fst (ValidateCreate L w obj) = None \<longleftrightarrow> fst (ValidateCreate L w' obj) = None) \<and>
      (fst (ValidateUpdate L w old obj) = None \<longleftrightarrow> fst (ValidateUpdate L w' old obj) = None)) \<and>
   fst (ValidateCreate L (snd (ValidateCreate L w obj)) obj) = fst (ValidateCreate L w obj) \<and>
   fst (ValidateUpdate L (snd (ValidateUpdate L w old obj)) old obj) =
     fst (ValidateUpdate L w old obj)"
proof -
  have a: "fst (validateNetworkPolicyApproval L w np) = None \<longleftrightarrow>
           fst (validateNetworkPolicyApproval L w' np) = None"
    if "secrets w = secrets w'" "faults w = faults w'" for np
    using that checkForApprovedCertificate_cong [of w w' np] by (simp add: validate_allow_iff)
  show ?thesis
    by (cases obj) (auto simp add: ValidateCreate_def ValidateUpdate_def validate_repeat a)
qed

theorem admission_idempotent_witness:
  "secrets (example_world []) = secrets failing_create_world \<and>
   faults (example_world []) = faults (example_world [example_request ConditionTrue ''CERT'']) \<and>
   fst (ValidateCreate example_stdlib (example_world []) (NetworkPolicyObject example_policy)) \<noteq> None \<and>
   fst (ValidateCreate example_stdlib (example_world [example_request ConditionTrue ''CERT''])
          (NetworkPolicyObject example_policy)) \<noteq> None"
proof -
  have s: "secrets (example_world []) = secrets (example_world [example_request ConditionTrue ''CERT''])"
    "faults (example_world []) = faults (example_world [example_request ConditionTrue ''CERT''])"
    "secrets (example_world []) = secrets failing_create_world"
    by (simp_all add: example_defs)
  have d: "fst (ValidateCreate example_stdlib (example_world []) (NetworkPolicyObject example_policy)) \<noteq> None"
    by (simp add: gate_defs example_defs)
  from admission_idempotent [of "example_world []" "example_world [example_request ConditionTrue ''CERT'']"
      example_stdlib "NetworkPolicyObject example_policy" "NetworkPolicyObject example_policy"] s d
  show ?thesis by blast
qed

section \<open>The Fingerprint Function\<close>

lemma hex_digit_inj: "a < 16 \<Longrightarrow> b < 16 \<Longrightarrow> hex_digit a = hex_digit b \<Longrightarrow> a = b"
proof -
  assume a: "a < 16" and b: "b < 16" and e: "hex_digit a = hex_digit b"
  have d: "distinct ''0123456789abcdef''" by simp
  have l: "length ''0123456789abcdef'' = 16" by simp
  from e have "''0123456789abcdef'' ! a = ''0123456789abcdef'' ! b"
    using a b by (simp add: hex_digit_def)
  then show "a = b" using d a b l by (metis nth_eq_iff_index_eq)
qed

lemma hex_byte_inj: "hex_byte c = hex_byte d \<Longrightarrow> c = d"
proof -
  assume e: "hex_byte c = hex_byte d"
  let ?m = "of_char c :: nat" and ?n = "of_char d :: nat"
  have lt: "?m < 256" "?n < 256" by simp_all
  then have hi: "?m div 16 < 16" "?n div 16 < 16"
    by (simp_all add: less_mult_imp_div_less)
  have lo: "?m mod 16 < 16" "?n mod 16 < 16" by simp_all
  from e have "hex_digit (?m div 16) = hex_digit (?n div 16)"
    and "hex_digit (?m mod 16) = hex_digit (?n mod 16)"
    by (simp_all add: hex_byte_def)
  then have "?m div 16 = ?n div 16" "?m mod 16 = ?n mod 16"
    using hi lo hex_digit_inj by blast+
  then have "?m = ?n" by (metis div_mult_mod_eq)
  then show "c = d" by simp
qed

lemma hex_string_inj: "hex_string a = hex_string b \<Longrightarrow> a = b"
proof (induction a arbitrary: b)
  case Nil
  then show ?case by (cases b) (simp_all add: hex_string_def hex_byte_def)
next
  case (Cons x xs)
  show ?case
  proof (cases b)
    case Nil
    with Cons.prems show ?thesis by (simp add: hex_string_def hex_byte_def)
  next
    case (Cons y ys)
    with Cons.prems have "hex_byte x @ hex_string xs = hex_byte y @ hex_string ys"
      by (simp add: hex_string_def)
    moreover have "length (hex_byte x) = length (hex_byte y)" by (simp add: hex_byte_def)
    ultimately have "hex_byte x = hex_byte y" "hex_string xs = hex_string ys" by simp_all
    then show ?thesis using Cons.IH Cons hex_byte_inj by simp
  qed
qed

lemma length_hex_string: "length (hex_string b) = 2 * length b"
  by (induction b) (simp_all add: hex_string_def hex_byte_def)

text \<open>
  C6, as the claim states it, fails in its last part: whatever the serialisation (as long
  as it does not fail) and whatever the digest function with 32 bytes of output, it is
  not the case that every change of the spec changes the fingerprint. The fingerprint is
  a string of 64 characters, and there are more specs than such strings (the spec is
  taken here to be a string, as a label of a selector is).
\<close>

theorem fingerprint_collides:
  "\<not> (\<exists>L :: string stdlib.
        (\<forall>d. \<exists>j. json_Marshal L d = Inr j) \<and>
        (\<forall>b. length (sha256_Sum256 L b) = 32) \<and>
        (\<forall>np np'. np_spec np \<noteq> np_spec np' \<longrightarrow>
           generateNetworkPolicyHash L np \<noteq> generateNetworkPolicyHash L np'))"
proof
  assume "\<exists>L :: string stdlib.
        (\<forall>d. \<exists>j. json_Marshal L d = Inr j) \<and>
        (\<forall>b. length (sha256_Sum256 L b) = 32) \<and>
        (\<forall>np np'. np_spec np \<noteq> np_spec np' \<longrightarrow>
           generateNetworkPolicyHash L np \<noteq> generateNetworkPolicyHash L np')"
  then obtain L :: "string stdlib" where
    m: "\<And>d. \<exists>j. json_Marshal L d = Inr j" and
    l: "\<And>b. length (sha256_Sum256 L b) = 32" and
    i: "\<And>np np'. np_spec np \<noteq> np_spec np' \<Longrightarrow>
           generateNetworkPolicyHash L np \<noteq> generateNetworkPolicyHash L np'"
    by blast
  define f where "f s = generateNetworkPolicyHash L
    \<lparr>np_name = [], np_namespace = [], np_labels = Map.empty, np_annotations = Map.empty,
     np_spec = s\<rparr>" for s :: string
  have inj: "inj f"
  proof (rule injI)
    fix x y assume "f x = f y"
    then show "x = y" using i unfolding f_def by force
  qed
  have range: "range f \<subseteq> Inr ` {h. length h = 64}"
  proof
    fix r assume "r \<in> range f"
    then obtain s where r: "r = f s" by blast
    obtain j where "json_Marshal L \<lparr>data_name = [], data_namespace = [], data_spec = s\<rparr> = Inr j"
      using m by blast
    then have "f s = Inr (hex_string (sha256_Sum256 L j))"
      by (simp add: f_def generateNetworkPolicyHash_def)
    then show "r \<in> Inr ` {h. length h = 64}"
      using r l by (simp add: length_hex_string image_iff)
  qed
  have "finite {h :: string. length h = 64}"
    using finite_lists_length_eq [of "UNIV :: char set" 64] by simp
  then have "finite (range f)" using range by (meson finite_imageI finite_subset)
  then have "finite (UNIV :: string set)" using inj finite_imageD by blast
  then show False using infinite_UNIV_listI by blast
qed

text \<open>
  C6, amended: generateNetworkPolicyHash is a function of the policy (repeated calls
  agree); its result depends only on the name, the namespace and the spec of the policy
  (labels, annotations and other metadata leave it unchanged); and two policies whose
  serialisations succeed have the same fingerprint exactly when the SHA-256 sums of the
  two serialisations are equal: a change of the spec changes the fingerprint unless the
  serialisations or their sums coincide.
\<close>

theorem fingerprint_determined:
  "(np_name np = np_name np' \<and> np_namespace np = np_namespace np' \<and> np_spec np = np_spec np' \<longrightarrow>
      generateNetworkPolicyHash L np = generateNetworkPolicyHash L np') \<and>
   (json_Marshal L \<lparr>data_name = np_name np, data_namespace = np_namespace np,
                     data_spec = np_spec np\<rparr> = Inr j \<and>
    json_Marshal L \<lparr>data_name = np_name np', data_namespace = np_namespace np',
                     data_spec = np_spec np'\<rparr> = Inr j' \<longrightarrow>
      (generateNetworkPolicyHash L np = generateNetworkPolicyHash L np' \<longleftrightarrow>
       sha256_Sum256 L j = sha256_Sum256 L j'))"
  by (auto simp add: generateNetworkPolicyHash_def dest: hex_string_inj)

theorem fingerprint_determined_witness:
  "generateNetworkPolicyHash example_stdlib (example_policy\<lparr>np_labels := [''app'' \<mapsto> ''web'']\<rparr>) =
     generateNetworkPolicyHash example_stdlib example_policy \<and>
   generateNetworkPolicyHash example_stdlib (example_policy\<lparr>np_spec := ''t''\<rparr>) \<noteq>
     generateNetworkPolicyHash example_stdlib example_policy"
  using
    fingerprint_determined [of "example_policy\<lparr>np_labels := [''app'' \<mapsto> ''web'']\<rparr>"
      example_policy example_stdlib "''ns/p:s''" "''ns/p:s''"]
    fingerprint_determined [of "example_policy\<lparr>np_spec := ''t''\<rparr>"
      example_policy example_stdlib "''ns/p:t''" "''ns/p:s''"]
  by (simp add: example_defs)

section \<open>The Garbage Collector: what one secret's turn leaves alone\<close>

lemmas sweep_defs = cleanupOrphanedSecrets_def client_list_secrets_def cleanupSecret_def
  deleteOrphan_def DeleteResource_def client_delete_secret_def RemoveFinalizer_def
  ContainsFinalizer_def UpdateResource_def client_update_secret_def GetResource_CSR_def
  client_get_csr_def same_key_def Let_def

lemma find_map_other:
  "(\<And>x. Q x \<Longrightarrow> \<not> P x \<and> \<not> P (g x)) \<Longrightarrow>
   find P (map (\<lambda>x. if Q x then g x else x) xs) = find P xs"
  by (induction xs) auto

lemma find_filter_other:
  "(\<And>x. P x \<Longrightarrow> \<not> Q x) \<Longrightarrow> find P (filter (\<lambda>x. \<not> Q x) xs) = find P xs"
  by (induction xs) auto

lemma client_update_secret_other:
  assumes "client_update_secret w s = (e, w')" and "\<not> same_key ns n s"
  shows "find (same_key ns n) (secrets w') = find (same_key ns n) (secrets w)"
proof -
  have k: "\<And>x. same_key (sec_namespace s) (sec_name s) x \<Longrightarrow> \<not> same_key ns n x"
    using assms(2) by (auto simp add: same_key_def)
  have k': "\<And>x. same_key ns n x \<Longrightarrow> \<not> same_key (sec_namespace s) (sec_name s) x"
    using assms(2) by (auto simp add: same_key_def)
  have m: "find (same_key ns n)
       (map (\<lambda>x. if same_key (sec_namespace s) (sec_name s) x then s\<lparr>sec_deleting := b\<rparr> else x) xs) =
     find (same_key ns n) xs" for b xs
    by (rule find_map_other [where g = "\<lambda>x. s\<lparr>sec_deleting := b\<rparr>"])
       (use assms(2) k in \<open>auto simp add: same_key_def\<close>)
  show ?thesis
    using assms(1) m find_filter_other [of "same_key ns n" "same_key (sec_namespace s) (sec_name s)", OF k']
    by (auto simp add: client_update_secret_def split: option.splits if_splits)
qed

lemma client_update_secret_frame:
  "client_update_secret w s = (e, w') \<Longrightarrow> csrs w' = csrs w \<and> faults w' = faults w"
  by (auto simp add: client_update_secret_def split: option.splits if_splits)

lemma client_delete_secret_other:
  assumes "client_delete_secret w s = (e, w')" and "\<not> same_key ns n s"
  shows "find (same_key ns n) (secrets w') = find (same_key ns n) (secrets w)"
proof -
  have k: "\<And>x. same_key (sec_namespace s) (sec_name s) x \<Longrightarrow> \<not> same_key ns n x"
    using assms(2) by (auto simp add: same_key_def)
  have k': "\<And>x. same_key ns n x \<Longrightarrow> \<not> same_key (sec_namespace s) (sec_name s) x"
    using assms(2) by (auto simp add: same_key_def)
  have m: "find (same_key ns n)
       (map (\<lambda>x. if same_key (sec_namespace s) (sec_name s) x then x\<lparr>sec_deleting := True\<rparr> else x) xs) =
     find (same_key ns n) xs" for xs
    by (rule find_map_other [where g = "\<lambda>x. x\<lparr>sec_deleting := True\<rparr>"])
       (use k in \<open>auto simp add: same_key_def\<close>)
  show ?thesis
    using assms(1) m find_filter_other [of "same_key ns n" "same_key (sec_namespace s) (sec_name s)", OF k']
    by (auto simp add: client_delete_secret_def split: option.splits if_splits)
qed


lemma deleteOrphan_other:
  "\<not> same_key ns n s \<Longrightarrow>
   find (same_key ns n) (secrets (deleteOrphan w s)) = find (same_key ns n) (secrets w)"
  by (cases "client_delete_secret w s")
     (auto simp add: deleteOrphan_def DeleteResource_def split: option.splits
        dest: client_delete_secret_other)

lemma RemoveFinalizer_other:
  assumes "RemoveFinalizer w s f = (e, s', w')" and "\<not> same_key ns n s"
  shows "find (same_key ns n) (secrets w') = find (same_key ns n) (secrets w) \<and> \<not> same_key ns n s'"
proof (cases "ContainsFinalizer s f")
  case False
  then show ?thesis using assms by (simp add: RemoveFinalizer_def)
next
  case True
  let ?s = "s\<lparr>sec_finalizers := filter (\<lambda>g. g \<noteq> f) (sec_finalizers s)\<rparr>"
  have k: "\<not> same_key ns n ?s" using assms(2) by (simp add: same_key_def)
  obtain e1 w1 where u: "client_update_secret w ?s = (e1, w1)"
    by (cases "client_update_secret w ?s")
  with assms(1) True have "s' = ?s" "w' = w1"
    by (simp_all add: RemoveFinalizer_def UpdateResource_def Let_def)
  then show ?thesis using client_update_secret_other [OF u k] k by simp
qed

lemma cleanupSecret_other:
  assumes "\<not> same_key ns n s"
  shows "find (same_key ns n) (secrets (cleanupSecret w s)) = find (same_key ns n) (secrets w)"
proof (cases "sec_annotations s ''networkpolicy.webhook.io/csr-name''")
  case None
  then show ?thesis by (simp add: cleanupSecret_def)
next
  case (Some csrName)
  note A = this
  show ?thesis
  proof (cases "GetResource_CSR w csrName")
    case (Inr c)
    then show ?thesis using A by (simp add: cleanupSecret_def)
  next
    case (Inl err)
    note G = this
    show ?thesis
    proof (cases "IsNotFound err")
      case False
      then show ?thesis using A G by (simp add: cleanupSecret_def)
    next
      case True
      note N = this
      let ?w1 = "log_info ''Found orphaned secret without CSR, cleaning up'' w"
      show ?thesis
      proof (cases "ContainsFinalizer s ''networkpolicy-approval-protection''")
        case False
        then show ?thesis using A G N assms
          by (simp add: cleanupSecret_def Let_def deleteOrphan_other)
      next
        case True
        obtain e s2 w2 where R:
          "RemoveFinalizer ?w1 s ''networkpolicy-approval-protection'' = (e, s2, w2)"
          by (cases "RemoveFinalizer ?w1 s ''networkpolicy-approval-protection''") auto
        from RemoveFinalizer_other [OF R assms]
        have f: "find (same_key ns n) (secrets w2) = find (same_key ns n) (secrets w)"
          and k: "\<not> same_key ns n s2" by simp_all
        show ?thesis using A G N True R f k
          by (cases e) (simp_all add: cleanupSecret_def Let_def deleteOrphan_other)
      qed
    qed
  qed
qed

lemma cleanupSecret_unannotated:
  "sec_annotations s ''networkpolicy.webhook.io/csr-name'' = None \<Longrightarrow> cleanupSecret w s = w"
  by (simp add: cleanupSecret_def)

lemma cleanupLoop_other:
  "(\<And>x. x \<in> set items \<Longrightarrow> same_key ns n x \<Longrightarrow>
      sec_annotations x ''networkpolicy.webhook.io/csr-name'' = None) \<Longrightarrow>
   find (same_key ns n) (secrets (cleanupLoop w items)) = find (same_key ns n) (secrets w)"
proof (induction items arbitrary: w)
  case Nil
  then show ?case by simp
next
  case (Cons x items)
  have "find (same_key ns n) (secrets (cleanupSecret w x)) = find (same_key ns n) (secrets w)"
  proof (cases "same_key ns n x")
    case True
    then show ?thesis using Cons.prems [of x] by (simp add: cleanupSecret_unannotated)
  next
    case False
    then show ?thesis by (rule cleanupSecret_other)
  qed
  then show ?case using Cons.IH [of "cleanupSecret w x"] Cons.prems by simp
qed

lemma find_distinct_key:
  "distinct (map (\<lambda>s. (sec_namespace s, sec_name s)) xs) \<Longrightarrow> s \<in> set xs \<Longrightarrow>
   find (same_key (sec_namespace s) (sec_name s)) xs = Some s"
  by (induction xs) (auto simp add: same_key_def rev_image_eqI)

lemma same_key_distinct:
  "distinct (map (\<lambda>s. (sec_namespace s, sec_name s)) xs) \<Longrightarrow> s \<in> set xs \<Longrightarrow> x \<in> set xs \<Longrightarrow>
   same_key (sec_namespace s) (sec_name s) x \<Longrightarrow> x = s"
  by (auto simp add: same_key_def distinct_map inj_on_def)

text \<open>
  C10: in a store with at most one secret for a namespace and a name, every secret
  (of the approval type or not) whose annotations lack the key
  "networkpolicy.webhook.io/csr-name" is still in the store after the sweep, under its
  key and with all its fields as they were (finalizers kept, not marked as being
  deleted, not deleted), whatever requests exist and whatever calls fail.
\<close>

theorem sweep_keeps_unannotated:
  assumes "distinct_keys w"
    and "s \<in> set (secrets w)"
    and "sec_annotations s ''networkpolicy.webhook.io/csr-name'' = None"
  shows "find (same_key (sec_namespace s) (sec_name s)) (secrets (snd (cleanupOrphanedSecrets w))) =
           Some s \<and>
         s \<in> set (secrets (snd (cleanupOrphanedSecrets w)))"
proof -
  let ?k = "same_key (sec_namespace s) (sec_name s)"
  have d: "distinct (map (\<lambda>s. (sec_namespace s, sec_name s)) (secrets w))"
    using assms(1) by (simp add: distinct_keys_def)
  have f0: "find ?k (secrets w) = Some s" using d assms(2) by (rule find_distinct_key)
  have "find ?k (secrets (snd (cleanupOrphanedSecrets w))) = Some s"
  proof (cases "client_list_secrets w ''networkpolicy.webhook.io/approval''")
    case (Inl err)
    then show ?thesis using f0 by (simp add: cleanupOrphanedSecrets_def)
  next
    case (Inr items)
    then have "set items \<subseteq> set (secrets w)"
      by (auto simp add: client_list_secrets_def split: option.splits)
    then have "\<And>x. x \<in> set items \<Longrightarrow> ?k x \<Longrightarrow>
        sec_annotations x ''networkpolicy.webhook.io/csr-name'' = None"
      using same_key_distinct [OF d assms(2)] assms(3) by blast
    then have "find ?k (secrets (cleanupLoop w items)) = find ?k (secrets w)"
      by (rule cleanupLoop_other)
    then show ?thesis using Inr f0 by (simp add: cleanupOrphanedSecrets_def)
  qed
  then show ?thesis by (metis find_Some_iff nth_mem)
qed

theorem sweep_keeps_unannotated_witness:
  "distinct_keys ((example_world [])\<lparr>secrets := [orphaned_secret, unannotated_secret]\<rparr>) \<and>
   sec_annotations unannotated_secret ''networkpolicy.webhook.io/csr-name'' = None \<and>
   secrets (snd (cleanupOrphanedSecrets
      ((example_world [])\<lparr>secrets := [orphaned_secret, unannotated_secret]\<rparr>))) = [unannotated_secret]"
  using sweep_keeps_unannotated
    [of "(example_world [])\<lparr>secrets := [orphaned_secret, unannotated_secret]\<rparr>" unannotated_secret]
  by (simp add: sweep_defs distinct_keys_def example_defs unannotated_secret_def orphaned_secret_def)

section \<open>Gate, grant, and the next admission\<close>

lemma granted_world_eq:
  "generateNetworkPolicyHash L np = Inr h \<Longrightarrow>
   granted_world L np cert = example_world [granted_request np h cert]"
  by (simp add: granted_world_def approve_def ValidateCreate_def validateNetworkPolicyApproval_def
      checkForApprovedCertificate_def createApprovalCSR_def client_get_secret_def
      client_get_csr_def client_create_csr_def example_world_def granted_request_def Let_def)

lemma Reconcile_granted_world:
  "generateNetworkPolicyHash L np = Inr h \<Longrightarrow> cert \<noteq> [] \<Longrightarrow>
   Reconcile (granted_world L np cert) (''np-approval-'' @ np_namespace np @ ''-'' @ np_name np) =
     ((Result0, None),
      (example_world [granted_request np h cert])
        \<lparr>secrets := [granted_token np h cert],
         logs := [Info ''Reconciling CSR'', Info ''Created secret for approved NetworkPolicy'']\<rparr>)"
  by (simp add: granted_world_eq)
     (simp add: Reconcile_def reconcileSecret_def GetResource_CSR_def client_get_csr_def
      GetResource_Secret_def client_get_secret_def CreateResource_def client_create_secret_def
      AddFinalizer_def ContainsFinalizer_def UpdateResource_def client_update_secret_def
      newSecret_def secretName_def same_key_def Let_def example_world_def log_info_def
      granted_request_def granted_token_def)

text \<open>
  C1: after the Admission Gate has denied a fresh policy and created its request, and
  the request has been granted with non-empty certificate bytes, Reconcile succeeds and
  produces the token with the fingerprint of the policy under "hash"; the claim says
  that the next admission check of the unchanged policy allows. The code does not:
  Reconcile stores the certificate under the data key "tls-crt", the admission check
  reads the key "tls.crt", finds none, and denies again, with the message that names the
  request. With the certificate under "tls.crt" the same token approves.
\<close>

theorem granted_policy_still_denied:
  assumes "generateNetworkPolicyHash L np = Inr h" and "cert \<noteq> []"
    and "n = ''np-approval-'' @ np_namespace np @ ''-'' @ np_name np"
    and "w = snd (Reconcile (granted_world L np cert) n)"
  shows "fst (Reconcile (granted_world L np cert) n) = (Result0, None) \<and>
         map (\<lambda>s. (sec_namespace s, sec_name s, sec_type s, sec_data s ''hash'',
                    sec_data s ''tls-crt'', sec_data s ''tls.crt'')) (secrets w) =
           [(np_namespace np, n, SecretTypeNetworkPolicyApproval, Some h, Some cert, None)] \<and>
         checkForApprovedCertificate w np h = Inr False \<and>
         fst (ValidateUpdate L w (NetworkPolicyObject np) (NetworkPolicyObject np)) =
           Some (Other (notApprovedMessage n)) \<and>
         checkForApprovedCertificate
           (w\<lparr>secrets := map (\<lambda>s. s\<lparr>sec_data := (sec_data s)(''tls.crt'' \<mapsto> cert)\<rparr>) (secrets w)\<rparr>)
           np h = Inr True"
proof -
  note r = Reconcile_granted_world [OF assms(1,2), folded assms(3)]
  have w: "secrets w = [granted_token np h cert]" "faults w = (\<lambda>c. None)"
    "csrs w = [granted_request np h cert]"
    using assms(4) r by (simp_all add: example_world_def)
  have c: "checkForApprovedCertificate w np h = Inr False"
    using w assms(3)
    by (simp add: checkForApprovedCertificate_def client_get_secret_def newSecret_def
        secretName_def secretData_def same_key_def granted_token_def)
  have c': "checkForApprovedCertificate
           (w\<lparr>secrets := map (\<lambda>s. s\<lparr>sec_data := (sec_data s)(''tls.crt'' \<mapsto> cert)\<rparr>) (secrets w)\<rparr>)
           np h = Inr True"
    using w assms(2,3)
    by (simp add: checkForApprovedCertificate_def client_get_secret_def newSecret_def
        secretName_def secretData_def same_key_def granted_token_def)
  have v: "fst (validateNetworkPolicyApproval L w np) = Some (Other (notApprovedMessage n))"
    using assms(1,3) c w(2,3)
    by (simp add: validateNetworkPolicyApproval_def client_get_csr_def granted_request_def Let_def)
  show ?thesis
    using r w c c' v assms(3)
    by (simp add: ValidateUpdate_def newSecret_def secretName_def secretData_def granted_token_def
        granted_request_def)
qed

theorem granted_policy_still_denied_witness:
  "generateNetworkPolicyHash example_stdlib example_policy = Inr (hex_string ''ns/p:s'') \<and>
   fst (Reconcile (granted_world example_stdlib example_policy ''CERT'') ''np-approval-ns-p'') =
     (Result0, None) \<and>
   fst (ValidateUpdate example_stdlib
          (snd (Reconcile (granted_world example_stdlib example_policy ''CERT'') ''np-approval-ns-p''))
          (NetworkPolicyObject example_policy) (NetworkPolicyObject example_policy)) =
     Some (Other (notApprovedMessage ''np-approval-ns-p''))"
  using granted_policy_still_denied [of example_stdlib example_policy "hex_string ''ns/p:s''"
      "''CERT''" "''np-approval-ns-p''"
      "snd (Reconcile (granted_world example_stdlib example_policy ''CERT'') ''np-approval-ns-p'')"]
  by (simp add: generateNetworkPolicyHash_def example_defs)

section \<open>A withdrawn request and its token\<close>

text \<open>
  C2: a token made by the Grant Materializer carries the finalizer
  "networkpolicy.webhook.io/approval-protection"; the claim says that, once its request
  is gone, one sweep clears that guard and deletes the token. The code does not: the
  sweep looks for the finalizer "networkpolicy-approval-protection", which the token
  does not carry, skips the removal and asks for the deletion, and the store only marks
  the guarded token as being deleted. The guard stays and the token stays, also after
  a second sweep, which changes no secret. A token that carries the finalizer the
  sweep looks for is removed by one sweep.
\<close>

theorem orphan_keeps_guard:
  assumes "generateNetworkPolicyHash L np = Inr h" and "cert \<noteq> []"
    and "n = ''np-approval-'' @ np_namespace np @ ''-'' @ np_name np"
    and "w = withdraw n (snd (Reconcile (granted_world L np cert) n))"
  shows "secrets w = [granted_token np h cert] \<and>
         sec_finalizers (granted_token np h cert) = [''networkpolicy.webhook.io/approval-protection''] \<and>
         sec_annotations (granted_token np h cert) ''networkpolicy.webhook.io/csr-name'' = Some n \<and>
         csrs w = [] \<and>
         cleanupOrphanedSecrets w =
           (None, w\<lparr>secrets := [(granted_token np h cert)\<lparr>sec_deleting := True\<rparr>],
                    logs := logs w @ [Info ''Found orphaned secret without CSR, cleaning up'']\<rparr>) \<and>
         secrets (snd (cleanupOrphanedSecrets (snd (cleanupOrphanedSecrets w)))) =
           [(granted_token np h cert)\<lparr>sec_deleting := True\<rparr>] \<and>
         secrets (snd (cleanupOrphanedSecrets
           (w\<lparr>secrets := [(granted_token np h cert)
               \<lparr>sec_finalizers := [''networkpolicy-approval-protection'']\<rparr>]\<rparr>))) = []"
proof -
  note r = Reconcile_granted_world [OF assms(1,2), folded assms(3)]
  have w: "w = (example_world [])
        \<lparr>secrets := [granted_token np h cert],
         logs := [Info ''Reconciling CSR'', Info ''Created secret for approved NetworkPolicy'']\<rparr>"
    using assms(3,4) r by (simp add: withdraw_def example_world_def granted_request_def)
  have t: "sec_finalizers (granted_token np h cert) = [''networkpolicy.webhook.io/approval-protection'']"
    "sec_annotations (granted_token np h cert) ''networkpolicy.webhook.io/csr-name'' = Some n"
    "sec_type (granted_token np h cert) = ''networkpolicy.webhook.io/approval''"
    "\<not> sec_deleting (granted_token np h cert)"
    using assms(3) by (simp_all add: granted_token_def newSecret_def granted_request_def)
  have s1: "cleanupOrphanedSecrets w =
           (None, w\<lparr>secrets := [(granted_token np h cert)\<lparr>sec_deleting := True\<rparr>],
                    logs := logs w @ [Info ''Found orphaned secret without CSR, cleaning up'']\<rparr>)"
    unfolding w using t
    by (simp add: sweep_defs example_world_def log_info_def)
  have s2: "secrets (snd (cleanupOrphanedSecrets (snd (cleanupOrphanedSecrets w)))) =
           [(granted_token np h cert)\<lparr>sec_deleting := True\<rparr>]"
    unfolding s1 unfolding w using t
    by (simp add: sweep_defs example_world_def log_info_def)
  have s3: "secrets (snd (cleanupOrphanedSecrets
           (w\<lparr>secrets := [(granted_token np h cert)
               \<lparr>sec_finalizers := [''networkpolicy-approval-protection'']\<rparr>]\<rparr>))) = []"
    unfolding w using t
    by (simp add: sweep_defs example_world_def log_info_def)
  show ?thesis using w t s1 s2 s3 by (simp add: example_world_def)
qed

theorem orphan_keeps_guard_witness:
  "generateNetworkPolicyHash example_stdlib example_policy = Inr (hex_string ''ns/p:s'') \<and>
   map (\<lambda>s. (sec_name s, sec_finalizers s, sec_deleting s))
     (secrets (snd (cleanupOrphanedSecrets (withdraw ''np-approval-ns-p''
        (snd (Reconcile (granted_world example_stdlib example_policy ''CERT'') ''np-approval-ns-p'')))))) =
     [(''np-approval-ns-p'', [''networkpolicy.webhook.io/approval-protection''], True)]"
  using orphan_keeps_guard [of example_stdlib example_policy "hex_string ''ns/p:s''"
      "''CERT''" "''np-approval-ns-p''"
      "withdraw ''np-approval-ns-p''
        (snd (Reconcile (granted_world example_stdlib example_policy ''CERT'') ''np-approval-ns-p''))"]
  by (simp add: generateNetworkPolicyHash_def example_defs granted_token_def newSecret_def
      secretName_def)

section \<open>The Grant Materializer: running twice\<close>

lemma find_put:
  "P t \<Longrightarrow> find P (map (\<lambda>x. if P x then t else x) xs) =
     (case find P xs of None \<Rightarrow> None | Some d \<Rightarrow> Some t)"
  by (induction xs) auto

lemma put_put:
  "P t' \<Longrightarrow> map (\<lambda>x. if P x then t else x) (map (\<lambda>x. if P x then t' else x) xs) =
     map (\<lambda>x. if P x then t else x) xs"
  by (induction xs) auto

lemma same_key_self [simp]: "same_key (sec_namespace s) (sec_name s) s"
  by (simp add: same_key_def)

lemma find_same_key_Some:
  "find (same_key ns n) xs = Some d \<Longrightarrow> sec_namespace d = ns \<and> sec_name d = n"
  by (auto simp add: find_Some_iff same_key_def)

lemma client_create_secret_frame:
  "client_create_secret w s = (e, w') \<Longrightarrow> csrs w' = csrs w \<and> faults w' = faults w"
  by (auto simp add: client_create_secret_def split: option.splits if_splits)

lemma AddFinalizer_frame:
  "AddFinalizer w s f = (e, s', w') \<Longrightarrow> csrs w' = csrs w \<and> faults w' = faults w"
  by (cases "client_update_secret w (s\<lparr>sec_finalizers := sec_finalizers s @ [f]\<rparr>)")
     (auto simp add: AddFinalizer_def UpdateResource_def Let_def split: if_splits
       dest: client_update_secret_frame)

lemma reconcileSecret_frame:
  "reconcileSecret w csr a b h = (r, w') \<Longrightarrow> csrs w' = csrs w \<and> faults w' = faults w"
  unfolding reconcileSecret_def CreateResource_def UpdateResource_def
  by (auto split: sum.splits if_splits prod.splits option.splits
      dest!: client_create_secret_frame client_update_secret_frame AddFinalizer_frame)


lemmas rs_defs = reconcileSecret_def GetResource_Secret_def client_get_secret_def
  CreateResource_def client_create_secret_def UpdateResource_def client_update_secret_def
  AddFinalizer_def ContainsFinalizer_def Let_def

lemma reconcileSecret_twice:
  assumes g: "\<And>d. find (same_key b (secretName b a)) (secrets w) = Some d \<Longrightarrow>
                 \<not> (sec_deleting d \<and> sec_finalizers d = [])"
    and s: "secrets w1' = secrets (snd (reconcileSecret w csr a b h))"
    and f: "faults w1' = faults w"
  shows "secrets (snd (reconcileSecret w1' csr a b h)) = secrets (snd (reconcileSecret w csr a b h))"
proof (cases "faults w (GetSecret b (secretName b a))")
  case (Some m)
  then show ?thesis using s f by (simp add: rs_defs)
next
  case None
  note G = this
  let ?N = "newSecret csr a b h"
  have kN: "sec_namespace ?N = b" "sec_name ?N = secretName b a" "sec_finalizers ?N = []"
    "\<not> sec_deleting ?N" "sec_data ?N = secretData csr h"
    by (simp_all add: newSecret_def)
  show ?thesis
  proof (cases "find (same_key b (secretName b a)) (secrets w)")
    case None
    note A = this
    show ?thesis
    proof (cases "faults w (CreateSecret b (secretName b a))")
      case (Some m)
      then show ?thesis using s f G A kN by (simp add: rs_defs)
    next
      case None
      note C = this
      have fN: "find (same_key b (secretName b a)) (secrets w @ [?N\<lparr>sec_deleting := False\<rparr>]) =
          Some (?N\<lparr>sec_deleting := False\<rparr>)"
        using A kN by (simp add: find_append_new same_key_def)
      show ?thesis
      proof (cases "faults w (UpdateSecret b (secretName b a))")
        case (Some m)
        have 1: "secrets (snd (reconcileSecret w csr a b h)) = secrets w @ [?N\<lparr>sec_deleting := False\<rparr>]"
          using G A C Some kN by (simp add: rs_defs)
        show ?thesis unfolding 1 using s [unfolded 1] f G C Some kN fN
          by (simp add: rs_defs)
      next
        case None
        note U = this
        define T where "T = ?N\<lparr>sec_finalizers := [''networkpolicy.webhook.io/approval-protection'']\<rparr>"
        define xs where "xs = map (\<lambda>x. if same_key b (secretName b a) x then T else x)
                      (secrets w @ [?N\<lparr>sec_deleting := False\<rparr>])"
        have 1: "secrets (snd (reconcileSecret w csr a b h)) = xs"
          using G A C U kN fN by (simp add: rs_defs xs_def T_def)
        have kT: "sec_namespace T = b" "sec_name T = secretName b a" "\<not> sec_deleting T"
          "T\<lparr>sec_data := secretData csr h\<rparr> = T" "T\<lparr>sec_deleting := False\<rparr> = T"
          "''networkpolicy.webhook.io/approval-protection'' \<in> set (sec_finalizers T)"
          "same_key b (secretName b a) T"
          by (simp_all add: T_def newSecret_def same_key_def)
        have fT: "find (same_key b (secretName b a)) xs = Some T"
          unfolding xs_def find_put [of "same_key b (secretName b a)", OF kT(7)] fN by simp
        have T2: "T\<lparr>sec_deleting := sec_deleting T\<rparr> = T" by simp
        have pp: "map (\<lambda>x. if same_key b (secretName b a) x
                           then T\<lparr>sec_deleting := sec_deleting T\<rparr> else x) xs = xs"
          unfolding T2 xs_def using put_put [of "same_key b (secretName b a)", OF kT(7)] by simp
        show ?thesis unfolding 1 using s [unfolded 1] f G C U kT fT pp
          by (simp add: rs_defs)
      qed
    qed
  next
    case (Some d)
    note A = this
    let ?F = "''networkpolicy.webhook.io/approval-protection''"
    have kd: "sec_namespace d = b" "sec_name d = secretName b a"
      using find_same_key_Some [OF A] by simp_all
    have gd: "sec_deleting d \<Longrightarrow> sec_finalizers d \<noteq> []" using g [OF A] by blast
    show ?thesis
    proof (cases "faults w (UpdateSecret b (secretName b a))")
      case (Some m)
      have 1: "secrets (snd (reconcileSecret w csr a b h)) = secrets w"
        using G A Some kd by (simp add: rs_defs)
      show ?thesis unfolding 1 using s [unfolded 1] f G A Some kd by (simp add: rs_defs)
    next
      case None
      note U = this
      define T where "T = (if ?F \<in> set (sec_finalizers d)
          then d\<lparr>sec_data := secretData csr h\<rparr>
          else d\<lparr>sec_finalizers := sec_finalizers d @ [?F], sec_data := secretData csr h\<rparr>)"
      define xs where "xs = map (\<lambda>x. if same_key b (secretName b a) x then T else x) (secrets w)"
      have kT: "sec_namespace T = b" "sec_name T = secretName b a"
        "T\<lparr>sec_data := secretData csr h\<rparr> = T" "T\<lparr>sec_deleting := sec_deleting T\<rparr> = T"
        "?F \<in> set (sec_finalizers T)" "same_key b (secretName b a) T" "sec_finalizers T \<noteq> []"
        "sec_deleting T = sec_deleting d"
        using kd by (auto simp add: T_def same_key_def)
      have 1: "secrets (snd (reconcileSecret w csr a b h)) = xs"
      proof (cases "?F \<in> set (sec_finalizers d)")
        case True
        have "d\<lparr>sec_deleting := sec_deleting d, sec_data := secretData csr h\<rparr> = T"
          using True by (simp add: T_def)
        then show ?thesis using G A U kd gd True
          by (auto simp add: rs_defs xs_def cong: if_cong)
      next
        case False
        let ?d1 = "d\<lparr>sec_data := secretData csr h\<rparr>"
        have k1: "same_key b (secretName b a) ?d1" using kd by (simp add: same_key_def)
        have f1: "find (same_key b (secretName b a))
            (map (\<lambda>x. if same_key b (secretName b a) x then ?d1 else x) (secrets w)) = Some ?d1"
          using find_put [of "same_key b (secretName b a)", OF k1] A by simp
        have p1: "map (\<lambda>x. if same_key b (secretName b a) x then T else x)
            (map (\<lambda>x. if same_key b (secretName b a) x then ?d1 else x) (secrets w)) = xs"
          unfolding xs_def using put_put [of "same_key b (secretName b a)", OF k1] by simp
        have e: "d\<lparr>sec_finalizers := sec_finalizers d @ [?F], sec_data := secretData csr h\<rparr> = T"
          using False by (simp add: T_def)
        show ?thesis using G A U kd gd False f1 p1 e
          by (auto simp add: rs_defs cong: if_cong)
      qed
      have fT: "find (same_key b (secretName b a)) xs = Some T"
        unfolding xs_def find_put [of "same_key b (secretName b a)", OF kT(6)] A by simp
      have pp: "map (\<lambda>x. if same_key b (secretName b a) x
                         then T\<lparr>sec_deleting := sec_deleting T\<rparr> else x) xs = xs"
        unfolding kT(4) xs_def using put_put [of "same_key b (secretName b a)", OF kT(6)] by simp
      show ?thesis unfolding 1 using s [unfolded 1] f G U kT(1,2,3,5,7) fT pp
        by (simp add: rs_defs)
    qed
  qed
qed

lemma Reconcile_early_or_secret:
  "(\<forall>w'. GetResource_CSR w' req = GetResource_CSR w req \<longrightarrow>
        secrets (snd (Reconcile w' req)) = secrets w' \<and>
        csrs (snd (Reconcile w' req)) = csrs w' \<and>
        faults (snd (Reconcile w' req)) = faults w') \<or>
   (\<exists>csr a b h. \<forall>w'. GetResource_CSR w' req = GetResource_CSR w req \<longrightarrow>
        Reconcile w' req = reconcileSecret (log_info ''Reconciling CSR'' w') csr a b h)"
proof (cases "GetResource_CSR w req")
  case (Inl err)
  then show ?thesis by (simp add: Reconcile_def Let_def)
next
  case (Inr csr)
  show ?thesis
  proof (cases "csr_labels csr ''networkpolicy.webhook.io/approval'' = None \<or>
                \<not> isApproved (csr_conditions csr) \<or>
                csr_annotations csr ''networkpolicy.webhook.io/name'' = None \<or>
                csr_annotations csr ''networkpolicy.webhook.io/namespace'' = None \<or>
                csr_annotations csr ''networkpolicy.webhook.io/approval-hash'' = None \<or>
                csr_certificate csr = []")
    case True
    then show ?thesis using Inr
      by (auto simp add: Reconcile_def Let_def split: option.splits)
  next
    case False
    then obtain a b h where
      "csr_annotations csr ''networkpolicy.webhook.io/name'' = Some a"
      "csr_annotations csr ''networkpolicy.webhook.io/namespace'' = Some b"
      "csr_annotations csr ''networkpolicy.webhook.io/approval-hash'' = Some h"
      by auto
    with False Inr have "\<forall>w'. GetResource_CSR w' req = GetResource_CSR w req \<longrightarrow>
        Reconcile w' req = reconcileSecret (log_info ''Reconciling CSR'' w') csr a b h"
      by (auto simp add: Reconcile_def Let_def)
    then show ?thesis by blast
  qed
qed

lemma GetResource_CSR_cong:
  "csrs w' = csrs w \<Longrightarrow> faults w' = faults w \<Longrightarrow> GetResource_CSR w' req = GetResource_CSR w req"
  by (simp add: GetResource_CSR_def client_get_csr_def cong: option.case_cong)

text \<open>
  C8: in every store where the secrets being deleted still have a finalizer, and for
  every request (so for every granted request with certificate bytes, whether the token
  exists already or not, and whichever calls of the store fail), the secrets after two
  runs of Reconcile in succession are the secrets after one run: the second run writes
  the same data over the token and, the finalizer being there, adds none.
\<close>

theorem Reconcile_idempotent:
  assumes "deleting_guarded w"
  shows "secrets (snd (Reconcile (snd (Reconcile w req)) req)) = secrets (snd (Reconcile w req))"
proof -
  let ?w1 = "snd (Reconcile w req)"
  from Reconcile_early_or_secret [of req w] show ?thesis
  proof
    assume e: "\<forall>w'. GetResource_CSR w' req = GetResource_CSR w req \<longrightarrow>
        secrets (snd (Reconcile w' req)) = secrets w' \<and>
        csrs (snd (Reconcile w' req)) = csrs w' \<and>
        faults (snd (Reconcile w' req)) = faults w'"
    then have "csrs ?w1 = csrs w" "faults ?w1 = faults w" by simp_all
    then have "GetResource_CSR ?w1 req = GetResource_CSR w req" by (rule GetResource_CSR_cong)
    then show ?thesis using e by blast
  next
    assume "\<exists>csr a b h. \<forall>w'. GetResource_CSR w' req = GetResource_CSR w req \<longrightarrow>
        Reconcile w' req = reconcileSecret (log_info ''Reconciling CSR'' w') csr a b h"
    then obtain csr a b h where m: "\<And>w'. GetResource_CSR w' req = GetResource_CSR w req \<Longrightarrow>
        Reconcile w' req = reconcileSecret (log_info ''Reconciling CSR'' w') csr a b h"
      by blast
    let ?w0 = "log_info ''Reconciling CSR'' w"
    have r: "Reconcile w req = reconcileSecret ?w0 csr a b h" by (simp add: m)
    have fr: "csrs ?w1 = csrs w" "faults ?w1 = faults w"
      using reconcileSecret_frame [of ?w0 csr a b h "fst (Reconcile w req)" ?w1] r by simp_all
    then have "GetResource_CSR ?w1 req = GetResource_CSR w req" by (rule GetResource_CSR_cong)
    then have r2: "Reconcile ?w1 req = reconcileSecret (log_info ''Reconciling CSR'' ?w1) csr a b h"
      by (rule m)
    have g: "\<And>d. find (same_key b (secretName b a)) (secrets ?w0) = Some d \<Longrightarrow>
                 \<not> (sec_deleting d \<and> sec_finalizers d = [])"
    proof -
      fix d assume "find (same_key b (secretName b a)) (secrets ?w0) = Some d"
      then have "d \<in> set (secrets w)" by (auto simp add: find_Some_iff)
      then show "\<not> (sec_deleting d \<and> sec_finalizers d = [])"
        using assms by (auto simp add: deleting_guarded_def list_all_iff)
    qed
    have "secrets (snd (reconcileSecret (log_info ''Reconciling CSR'' ?w1) csr a b h)) =
          secrets (snd (reconcileSecret ?w0 csr a b h))"
      by (rule reconcileSecret_twice [OF g]) (use r fr in simp_all)
    then show ?thesis using r r2 by simp
  qed
qed

theorem Reconcile_idempotent_witness:
  "deleting_guarded (granted_world example_stdlib example_policy ''CERT'') \<and>
   map (\<lambda>s. (sec_name s, sec_finalizers s, sec_data s ''tls-crt''))
     (secrets (snd (Reconcile
        (snd (Reconcile (granted_world example_stdlib example_policy ''CERT'') ''np-approval-ns-p''))
        ''np-approval-ns-p''))) =
     [(''np-approval-ns-p'', [''networkpolicy.webhook.io/approval-protection''], Some ''CERT'')]"
proof -
  have h: "generateNetworkPolicyHash example_stdlib example_policy = Inr (hex_string ''ns/p:s'')"
    by (simp add: generateNetworkPolicyHash_def example_defs)
  have dg: "deleting_guarded (granted_world example_stdlib example_policy ''CERT'')"
    by (simp add: granted_world_eq [OF h] deleting_guarded_def example_world_def)
  have r1: "secrets (snd (Reconcile (granted_world example_stdlib example_policy ''CERT'')
      ''np-approval-ns-p'')) = [granted_token example_policy (hex_string ''ns/p:s'') ''CERT'']"
    using Reconcile_granted_world [OF h, of "''CERT''"] by (simp add: example_defs)
  from Reconcile_idempotent [OF dg, of "''np-approval-ns-p''"] r1 dg show ?thesis
    by (simp add: granted_token_def granted_request_def newSecret_def secretName_def
        secretData_def example_defs)
qed

end
